theory Spec2Isabelle
  imports Main "HOL-Library.Char_ord"
begin

section \<open>Client side: the two post formatters of feed.js\<close>

text \<open>
  JavaScript strings are modelled as \<^typ>\<open>string\<close>, one \<^typ>\<open>char\<close> per character, for
  characters with code below 256. The regular-expression classes are read on that range:
  \<open>\s\<close> is tab, line feed, vertical tab, form feed, carriage return, space and the
  no-break space; \<open>\w\<close> is \<open>[A-Za-z0-9_]\<close>.
\<close>

definition is_space :: "char \<Rightarrow> bool" where
  "is_space c = (c \<in> set [CHR 0x09, CHR 0x0A, CHR 0x0B, CHR 0x0C, CHR 0x0D, CHR 0x20, CHR 0xA0])"

definition is_upper :: "char \<Rightarrow> bool" where
  "is_upper c = (CHR ''A'' \<le> c \<and> c \<le> CHR ''Z'')"

definition is_lower :: "char \<Rightarrow> bool" where
  "is_lower c = (CHR ''a'' \<le> c \<and> c \<le> CHR ''z'')"

definition is_digit :: "char \<Rightarrow> bool" where
  "is_digit c = (CHR ''0'' \<le> c \<and> c \<le> CHR ''9'')"

definition is_word :: "char \<Rightarrow> bool" where
  "is_word c = (is_upper c \<or> is_lower c \<or> is_digit c \<or> c = CHR ''_'')"

text \<open>\<open>s.replace(/c/g, r)\<close> for a single literal character \<open>c\<close>.\<close>

definition replace_char :: "char \<Rightarrow> string \<Rightarrow> string \<Rightarrow> string" where
  "replace_char c r s = concat (map (\<lambda>x. if x = c then r else [x]) s)"

text \<open>
  \<open>s.replace(re, f)\<close> for a global regular expression without anchors or look-around.
  The matcher \<open>m\<close> gives the text matched at the start of its argument, if any. The scan
  goes left to right; after a match it resumes behind the matched text (one character
  further when the matched text is empty); an unmatched character is copied.
\<close>

function gsub :: "(string \<Rightarrow> string option) \<Rightarrow> (string \<Rightarrow> string) \<Rightarrow> string \<Rightarrow> string" where
  "gsub m r [] = (case m [] of None \<Rightarrow> [] | Some x \<Rightarrow> r x)"
| "gsub m r (c # cs) =
     (case m (c # cs) of
        None \<Rightarrow> c # gsub m r cs
      | Some x \<Rightarrow>
          if x = [] then r x @ c # gsub m r cs
          else r x @ gsub m r (drop (length x) (c # cs)))"
  by pat_completeness auto
termination
  by (relation "measure (\<lambda>(m, r, s). length s)") auto

definition strip_prefix :: "string \<Rightarrow> string \<Rightarrow> string option" where
  "strip_prefix p s = (if take (length p) s = p then Some (drop (length p) s) else None)"

text \<open>
  \<open>/(https?:\/\/[^\s]+)/\<close> at the start of \<open>s\<close>: \<open>http\<close>, an optional \<open>s\<close> (tried first),
  \<open>://\<close>, then the longest non-empty run of non-space characters.
\<close>

definition match_url :: "string \<Rightarrow> string option" where
  "match_url s =
     (case strip_prefix ''http'' s of
        None \<Rightarrow> None
      | Some t \<Rightarrow>
          (case (case strip_prefix ''s://'' t of
                   Some u \<Rightarrow> Some (''https://'', u)
                 | None \<Rightarrow>
                     (case strip_prefix ''://'' t of
                        Some u \<Rightarrow> Some (''http://'', u)
                      | None \<Rightarrow> None)) of
             None \<Rightarrow> None
           | Some (scheme, u) \<Rightarrow>
               (let rest = takeWhile (\<lambda>c. \<not> is_space c) u
                in if rest = [] then None else Some (scheme @ rest))))"

text \<open>\<open>/#(\w+)/\<close> and \<open>/@(\w+)/\<close>: the sigil, then the longest non-empty run of word characters.\<close>

definition match_sigil :: "char \<Rightarrow> string \<Rightarrow> string option" where
  "match_sigil g s =
     (case s of
        [] \<Rightarrow> None
      | c # cs \<Rightarrow>
          if c = g
          then (let w = takeWhile is_word cs in if w = [] then None else Some (c # w))
          else None)"

definition url_link :: "string \<Rightarrow> string" where
  \<open>url_link m = ''<a href="'' @ m @ ''" target="_blank" rel="noopener">'' @ m @ ''</a>''\<close>

definition hashtag_span :: "string \<Rightarrow> string" where
  \<open>hashtag_span m = ''<span class="hashtag">#'' @ tl m @ ''</span>''\<close>

definition mention_span :: "string \<Rightarrow> string" where
  \<open>mention_span m = ''<span class="mention">@'' @ tl m @ ''</span>''\<close>

text \<open>The three replacements both formatters apply after escaping, in the source's order.\<close>

definition linkify :: "string \<Rightarrow> string" where
  "linkify s = gsub match_url url_link s"

definition hashtags :: "string \<Rightarrow> string" where
  "hashtags s = gsub (match_sigil (CHR ''#'')) hashtag_span s"

definition mentions :: "string \<Rightarrow> string" where
  "mentions s = gsub (match_sigil (CHR ''@'')) mention_span s"

text \<open>\<open>FeedManager.escapeHtml\<close> (feed.js): five replacements, the ampersand first.\<close>

definition escapeHtml :: "string \<Rightarrow> string" where
  "escapeHtml unsafe =
     replace_char (CHR 0x27) ''&#039;''
       (replace_char (CHR 0x22) ''&quot;''
         (replace_char (CHR ''>'') ''&gt;''
           (replace_char (CHR ''<'') ''&lt;''
             (replace_char (CHR ''&'') ''&amp;'' unsafe))))"

text \<open>\<open>FeedManager.formatPostContent\<close>; \<open>!content\<close> holds of the empty string.\<close>

definition FeedManager_formatPostContent :: "string \<Rightarrow> string" where
  "FeedManager_formatPostContent content =
     (if content = [] then []
      else mentions (hashtags (linkify (escapeHtml content))))"

text \<open>\<open>ProfileManager.formatPostContent\<close>: its own escaping, of three characters.\<close>

definition ProfileManager_formatPostContent :: "string \<Rightarrow> string" where
  "ProfileManager_formatPostContent content =
     (if content = [] then []
      else mentions (hashtags (linkify
             (replace_char (CHR ''>'') ''&gt;''
               (replace_char (CHR ''<'') ''&lt;''
                 (replace_char (CHR ''&'') ''&amp;'' content))))))"

section \<open>Server side: data model\<close>

text \<open>
  A value of the parsed request body is a JSON string, or a value of another JSON type
  (a number, a boolean, null, an object, an array of one element). Of a value that is not
  a string the server's code observes two things, which \<open>NonStr\<close> carries: the text that
  the validators and template strings read for it, and the number that arithmetic reads
  for it (\<open>None\<close> is \<open>NaN\<close>). The JSON number 123 is \<open>NonStr ''123'' (Some 123)\<close>.
\<close>

datatype jv = Str string | NonStr string "int option"

fun text_of :: "jv \<Rightarrow> string" where
  "text_of (Str s) = s"
| "text_of (NonStr t n) = t"

text \<open>
  Modelled from the spec: the schema of the store is not in the source, so the columns
  are those of the spec's data model and of the statements the handlers send. Rows are
  records, one field per column; the table prefixes the column name (\<open>u_\<close> users,
  \<open>p_\<close> posts, \<open>r_\<close> reports, \<open>a_\<close> admin_actions). Identifiers are numbers, timestamps
  are milliseconds since the epoch (the value behind the ISO text the server writes). A
  column that a handler fills with a body value as it was sent holds that value.
\<close>

type_synonym ident = nat

record user =
  u_id :: ident
  u_display_name :: "jv option"
  u_username :: string
  u_email :: string
  u_password_hash :: string
  u_is_admin :: bool
  u_is_moderator :: bool
  u_is_verified :: bool
  u_is_premium :: bool
  u_is_banned :: bool
  u_banned_until :: "int option"
  u_avatar_url :: "string option"
  u_banner_url :: "string option"
  u_bio :: "string option"
  u_website :: "string option"
  u_location :: "string option"
  u_created_at :: int

record post =
  p_id :: ident
  p_user_id :: ident
  p_content :: string
  p_created_at :: int

record report =
  r_id :: ident
  r_reporter_id :: ident
  r_reported_user_id :: "ident option"
  r_reported_post_id :: "ident option"
  r_status :: string
  r_resolved_by :: "ident option"
  r_resolved_at :: "int option"
  r_resolution_notes :: "jv option"
  r_created_at :: int

record admin_action =
  a_admin_id :: ident
  a_target_user_id :: ident
  a_action_type :: string
  a_reason :: "jv option"
  a_duration_hours :: "jv option"

text \<open>
  Modelled from the spec: the persistence service is external. It is modelled as tables
  in insertion order. Two refusals of the store are modelled, both switched by the
  environment: the uniqueness of username and email that the data model names
  (\<open>unique_constraints\<close>), and the refusal of an audit row (\<open>refuses_admin_action\<close>), the
  one statement whose result the handlers throw away. Every other statement is executed.
\<close>

record db =
  users :: "user list"
  posts :: "post list"
  reports :: "report list"
  admin_actions :: "admin_action list"
  next_id :: ident

text \<open>What a handler's \<open>catch\<close> can receive, and the message it sends with status 500.\<close>

datatype error = UniqueViolation string | NotSingleRow | InvalidTime | TypeError string
  | Failure string

fun message :: "error \<Rightarrow> string" where
  "message (UniqueViolation c) = ''duplicate key value violates unique constraint '' @ c"
| "message NotSingleRow = ''JSON object requested, multiple (or no) rows returned''"
| "message InvalidTime = ''Invalid time value''"
| "message (TypeError m) = m"
| "message (Failure m) = m"

subsection \<open>JSON values, requests and responses\<close>

datatype json = JNull | JBool bool | JNum int | JStr string | JArr "json list"
  | JObj "(string \<times> json) list"

text \<open>Whether an object with the field \<open>k\<close> occurs anywhere in a JSON value.\<close>

primrec has_key :: "string \<Rightarrow> json \<Rightarrow> bool" where
  "has_key k JNull = False"
| "has_key k (JBool b) = False"
| "has_key k (JNum n) = False"
| "has_key k (JStr s) = False"
| "has_key k (JArr xs) = list_ex id (map (has_key k) xs)"
| "has_key k (JObj kvs) = list_ex (\<lambda>p. fst p = k \<or> snd p) (map (map_prod id (has_key k)) kvs)"

text \<open>The field \<open>k\<close> of an object (\<open>undefined\<close> is \<open>None\<close>).\<close>

fun field :: "string \<Rightarrow> json \<Rightarrow> json option" where
  "field k (JObj kvs) = map_of kvs k"
| "field k j = None"

text \<open>\<open>const { k, ...rest } = obj\<close>: the object without its field \<open>k\<close>.\<close>

fun without :: "string \<Rightarrow> json \<Rightarrow> json" where
  "without k (JObj kvs) = JObj (filter (\<lambda>p. fst p \<noteq> k) kvs)"
| "without k j = j"

record response =
  status :: nat
  body :: json

text \<open>
  A request: its headers, the \<open>:id\<close> path parameter, the query string (texts) and the
  parsed body (a field that is absent is \<open>None\<close>, which is \<open>undefined\<close>).
\<close>

record request =
  headers :: "string \<Rightarrow> string option"
  params_id :: ident
  query :: "string \<Rightarrow> string option"
  req_body :: "string \<Rightarrow> jv option"

text \<open>The claims of a bearer token and the token as the library sees it.\<close>

record claims =
  c_id :: ident
  c_username :: string
  c_is_admin :: bool
  c_is_moderator :: bool

record jwt =
  payload :: claims
  signed_with :: string
  expires_at :: int

text \<open>
  What the server takes from its environment, its libraries and the store:
  \<^item> the signing secret and the token codec of jsonwebtoken (\<open>jwt_decode\<close> gives \<open>None\<close>
    for a malformed token);
  \<^item> bcrypt, which hashes and compares a value or throws (\<open>Inl\<close>);
  \<^item> the \<open>isEmail\<close> validator;
  \<^item> whether the store enforces the unique columns, and which audit rows it refuses;
  \<^item> the store's answer to the \<open>ilike\<close> filter that the admin listing builds from a
    search text;
  \<^item> the admin listing for a page or a limit that was sent: the rows and the pagination
    figures then come out of JavaScript's floating-point arithmetic on the two texts
    (text to number, number to text in \<open>offset + limit\<close>, \<open>parseInt\<close>, \<open>Math.ceil\<close>) and
    out of the store's reading of the range, which are not modelled here.
\<close>

record env =
  JWT_SECRET :: string
  jwt_decode :: "string \<Rightarrow> jwt option"
  jwt_encode :: "jwt \<Rightarrow> string"
  bcrypt_hash :: "jv option \<Rightarrow> error + string"
  bcrypt_compare :: "jv option \<Rightarrow> string \<Rightarrow> error + bool"
  isEmail :: "string \<Rightarrow> bool"
  unique_constraints :: bool
  refuses_admin_action :: "admin_action \<Rightarrow> bool"
  search_users :: "string \<Rightarrow> user list \<Rightarrow> error + user list"
  paged_users :: "string option \<Rightarrow> string option \<Rightarrow> user list \<Rightarrow> error + user list \<times> json"

text \<open>
  \<open>jwt.verify\<close>: the token must decode, carry the server's signature and not be expired
  (the clock is in seconds); \<open>jwt.sign\<close> with \<open>expiresIn: '7d'\<close>.
\<close>

definition jwt_verify :: "env \<Rightarrow> int \<Rightarrow> string \<Rightarrow> claims option" where
  "jwt_verify e now token =
     (case jwt_decode e token of
        None \<Rightarrow> None
      | Some t \<Rightarrow>
          if signed_with t \<noteq> JWT_SECRET e then None
          else if expires_at t \<le> now div 1000 then None
          else Some (payload t))"

definition jwt_sign :: "env \<Rightarrow> int \<Rightarrow> claims \<Rightarrow> string" where
  "jwt_sign e now c =
     jwt_encode e \<lparr>payload = c, signed_with = JWT_SECRET e, expires_at = now div 1000 + 604800\<rparr>"

subsection \<open>Strings as JavaScript reads them\<close>

definition toLowerCase :: "string \<Rightarrow> string" where
  "toLowerCase s =
     map (\<lambda>c. if is_upper c \<or> (CHR 0xC0 \<le> c \<and> c \<le> CHR 0xDE \<and> c \<noteq> CHR 0xD7)
               then char_of (of_char c + (32::nat)) else c) s"

definition trim :: "string \<Rightarrow> string" where
  "trim s = rev (dropWhile is_space (rev (dropWhile is_space s)))"

text \<open>
  \<open>s.split(c)\<close> for a one-character separator: the pieces between the separators, one
  piece (the empty text) for the empty text.
\<close>

fun split :: "char \<Rightarrow> string \<Rightarrow> string list" where
  "split c [] = [] # []"
| "split c (x # xs) =
     (if x = c then [] # split c xs
      else (case split c xs of
              [] \<Rightarrow> [x] # []
            | w # ws \<Rightarrow> (x # w) # ws))"

text \<open>
  A method call on a body value: \<open>v.trim()\<close> and \<open>v.toLowerCase()\<close> exist for a string
  and throw a \<open>TypeError\<close> for every other value and for \<open>undefined\<close>. The first argument is
  the source text of the call, for the message.
\<close>

definition method_call :: "string \<Rightarrow> string \<Rightarrow> (string \<Rightarrow> string) \<Rightarrow> jv option \<Rightarrow> error + string" where
  "method_call var name f v =
     (case v of
        Some (Str s) \<Rightarrow> Inr (f s)
      | Some (NonStr t n) \<Rightarrow> Inl (TypeError (var @ ''.'' @ name @ '' is not a function''))
      | None \<Rightarrow>
          Inl (TypeError (''Cannot read properties of undefined (reading '' @ [CHR 0x27] @ name
                 @ [CHR 0x27] @ '')'')))"

text \<open>\<open>`${v}`\<close> in a template string.\<close>

definition template :: "jv option \<Rightarrow> string" where
  "template v = (case v of None \<Rightarrow> ''undefined'' | Some x \<Rightarrow> text_of x)"

text \<open>\<open>column === v\<close> for a column that holds a text: only a string can be equal to it.\<close>

definition strictly_equal :: "string \<Rightarrow> jv option \<Rightarrow> bool" where
  "strictly_equal col v = (v = Some (Str col))"

subsection \<open>Integer texts\<close>

definition digits_value :: "string \<Rightarrow> nat" where
  "digits_value ds = foldl (\<lambda>n c. 10 * n + (of_char c - 48)) 0 ds"

text \<open>An optional sign and the characters behind it.\<close>

definition signed :: "string \<Rightarrow> bool \<times> string" where
  "signed s =
     (case s of
        [] \<Rightarrow> (False, [])
      | c # cs \<Rightarrow>
          if c = CHR ''-'' then (True, cs)
          else if c = CHR ''+'' then (False, cs)
          else (False, s))"

text \<open>
  The integer that a text of the form \<open>/^[-+]?[0-9]+$/\<close> stands for, leading zeros
  allowed; \<open>None\<close> for every other text. This is the pattern that \<open>isInt\<close> tests, and on a
  text of this form \<open>Number()\<close> and the comparison with \<open>min\<close> read this integer.
\<close>

definition int_text :: "string \<Rightarrow> int option" where
  "int_text s =
     (case signed s of
        (neg, ds) \<Rightarrow>
          if ds \<noteq> [] \<and> list_all is_digit ds
          then Some (if neg then - int (digits_value ds) else int (digits_value ds))
          else None)"

text \<open>The decimal numeral of a natural number, without leading zeros.\<close>

fun dec :: "nat \<Rightarrow> string" where
  "dec n = (if n < 10 then [char_of (48 + n)] else dec (n div 10) @ [char_of (48 + n mod 10)])"

declare dec.simps [simp del]

section \<open>Server side: middleware\<close>

definition error_response :: "nat \<Rightarrow> string \<Rightarrow> response" where
  "error_response st msg = \<lparr>status = st, body = JObj [(''error'', JStr msg)]\<rparr>"

definition message_response :: "string \<Rightarrow> response" where
  "message_response msg = \<lparr>status = 200, body = JObj [(''message'', JStr msg)]\<rparr>"

text \<open>
  \<open>authHeader && authHeader.split(' ')[1]\<close>, with \<open>None\<close> for every falsy result (no
  header, no second piece, an empty second piece). The scheme word is not looked at.
\<close>

definition bearer :: "request \<Rightarrow> string option" where
  "bearer req =
     (case headers req ''authorization'' of
        None \<Rightarrow> None
      | Some authHeader \<Rightarrow>
          (case split (CHR '' '') authHeader of
             a # token # rest \<Rightarrow> if token = [] then None else Some token
           | _ \<Rightarrow> None))"

text \<open>\<open>authenticateToken\<close>: \<open>Inl\<close> is the response that ends the request, \<open>Inr\<close> is \<open>req.user\<close>.\<close>

definition authenticateToken :: "env \<Rightarrow> int \<Rightarrow> request \<Rightarrow> response + claims" where
  "authenticateToken e now req =
     (case bearer req of
        None \<Rightarrow> Inl (error_response 401 ''Access token required'')
      | Some token \<Rightarrow>
          (case jwt_verify e now token of
             None \<Rightarrow> Inl (error_response 403 ''Invalid token'')
           | Some user \<Rightarrow> Inr user))"

text \<open>The role gates run behind \<open>authenticateToken\<close>; \<open>None\<close> is \<open>next()\<close>.\<close>

definition requireAdmin :: "claims \<Rightarrow> response option" where
  "requireAdmin user =
     (if \<not> c_is_admin user then Some (error_response 403 ''Admin access required'') else None)"

definition requireModerator :: "claims \<Rightarrow> response option" where
  "requireModerator user =
     (if \<not> c_is_admin user \<and> \<not> c_is_moderator user
      then Some (error_response 403 ''Moderator access required'') else None)"

subsection \<open>Validation chains\<close>

text \<open>
  A chain entry is a body field and one validator. The validators read the text of the
  value as it was sent (no sanitizer is in any chain) and read an absent field as the
  empty text. Every failing entry gives one entry of the \<open>errors\<close> array, cut down here to
  its message and field name.
\<close>

definition fld :: "request \<Rightarrow> string \<Rightarrow> string" where
  "fld req k = (case req_body req k of None \<Rightarrow> [] | Some v \<Rightarrow> text_of v)"

definition isLength :: "nat \<Rightarrow> nat option \<Rightarrow> string \<Rightarrow> bool" where
  "isLength lo hi s = (lo \<le> length s \<and> (case hi of None \<Rightarrow> True | Some h \<Rightarrow> length s \<le> h))"

definition notEmpty :: "string \<Rightarrow> bool" where
  "notEmpty s = (s \<noteq> [])"

text \<open>\<open>matches(/^[a-zA-Z0-9_]+$/)\<close>.\<close>

definition matches_word :: "string \<Rightarrow> bool" where
  "matches_word s = (s \<noteq> [] \<and> list_all is_word s)"

text \<open>
  \<open>isInt({ min })\<close>: the text is an optional sign and digits (leading zeros pass, they
  are refused only under \<open>allow_leading_zeroes: false\<close>), and its number is at least \<open>min\<close>.
\<close>

definition isInt :: "int \<Rightarrow> string \<Rightarrow> bool" where
  "isInt lo s = (case int_text s of None \<Rightarrow> False | Some n \<Rightarrow> lo \<le> n)"

definition isIn :: "string list \<Rightarrow> string \<Rightarrow> bool" where
  "isIn vs s = (s \<in> set vs)"

definition handleValidationErrors :: "(string \<times> (string \<Rightarrow> bool)) list \<Rightarrow> request \<Rightarrow> response option" where
  "handleValidationErrors chain req =
     (let errors = filter (\<lambda>(k, ok). \<not> ok (fld req k)) chain
      in if errors \<noteq> []
         then Some \<lparr>status = 400,
                    body = JObj [(''errors'',
                      JArr (map (\<lambda>(k, ok). JObj [(''msg'', JStr ''Invalid value''), (''path'', JStr k)])
                              errors))]\<rparr>
         else None)"

section \<open>Server side: the store's statements\<close>

definition jopt :: "('a \<Rightarrow> json) \<Rightarrow> 'a option \<Rightarrow> json" where
  "jopt f v = (case v of None \<Rightarrow> JNull | Some x \<Rightarrow> f x)"

text \<open>A body value read back from a text column.\<close>

definition jv_json :: "jv \<Rightarrow> json" where
  "jv_json v = JStr (text_of v)"

text \<open>A users row with every column, as \<open>select('*')\<close> and a bare \<open>select()\<close> return it.\<close>

definition user_json :: "user \<Rightarrow> json" where
  "user_json u =
     JObj [(''id'', JNum (int (u_id u))),
           (''display_name'', jopt jv_json (u_display_name u)),
           (''username'', JStr (u_username u)),
           (''email'', JStr (u_email u)),
           (''password_hash'', JStr (u_password_hash u)),
           (''is_admin'', JBool (u_is_admin u)),
           (''is_moderator'', JBool (u_is_moderator u)),
           (''is_verified'', JBool (u_is_verified u)),
           (''is_premium'', JBool (u_is_premium u)),
           (''is_banned'', JBool (u_is_banned u)),
           (''banned_until'', jopt JNum (u_banned_until u)),
           (''avatar_url'', jopt JStr (u_avatar_url u)),
           (''banner_url'', jopt JStr (u_banner_url u)),
           (''bio'', jopt JStr (u_bio u)),
           (''website'', jopt JStr (u_website u)),
           (''location'', jopt JStr (u_location u)),
           (''created_at'', JNum (u_created_at u))]"

text \<open>A posts row with the embedded \<open>user:users(display_name, username, avatar_url, is_verified, is_premium)\<close>.\<close>

definition post_json :: "db \<Rightarrow> post \<Rightarrow> json" where
  "post_json d p =
     JObj [(''id'', JNum (int (p_id p))),
           (''user_id'', JNum (int (p_user_id p))),
           (''content'', JStr (p_content p)),
           (''created_at'', JNum (p_created_at p)),
           (''user'',
              (case find (\<lambda>u. u_id u = p_user_id p) (users d) of
                 None \<Rightarrow> JNull
               | Some u \<Rightarrow>
                   JObj [(''display_name'', jopt jv_json (u_display_name u)),
                         (''username'', JStr (u_username u)),
                         (''avatar_url'', jopt JStr (u_avatar_url u)),
                         (''is_verified'', JBool (u_is_verified u)),
                         (''is_premium'', JBool (u_is_premium u))]))]"

text \<open>
  Modelled from the spec: the column defaults of the users table are not in the source.
  The caller of an insert supplies eight columns; the store fills the others (a fresh
  id, the time of the insert, not banned, no profile fields). With the unique columns
  enforced, a username or email already in the table refuses the insert.
\<close>

definition stored_user ::
  "ident \<Rightarrow> int \<Rightarrow> jv option \<Rightarrow> string \<Rightarrow> string \<Rightarrow> string \<Rightarrow> bool \<Rightarrow> bool \<Rightarrow> bool \<Rightarrow> bool \<Rightarrow> user" where
  "stored_user i now display_name username email password_hash is_admin is_moderator is_verified is_premium =
     \<lparr>u_id = i, u_display_name = display_name, u_username = username,
      u_email = email, u_password_hash = password_hash, u_is_admin = is_admin,
      u_is_moderator = is_moderator, u_is_verified = is_verified,
      u_is_premium = is_premium, u_is_banned = False, u_banned_until = None,
      u_avatar_url = None, u_banner_url = None, u_bio = None, u_website = None,
      u_location = None, u_created_at = now\<rparr>"

definition insert_user ::
  "env \<Rightarrow> int \<Rightarrow> db \<Rightarrow> jv option \<Rightarrow> string \<Rightarrow> string \<Rightarrow> string \<Rightarrow> bool \<Rightarrow> bool \<Rightarrow> bool \<Rightarrow> bool \<Rightarrow> error + user \<times> db" where
  "insert_user e now d display_name username email password_hash is_admin is_moderator is_verified is_premium =
     (if unique_constraints e \<and> list_ex (\<lambda>u. u_username u = username) (users d)
      then Inl (UniqueViolation ''users_username_key'')
      else if unique_constraints e \<and> list_ex (\<lambda>u. u_email u = email) (users d)
      then Inl (UniqueViolation ''users_email_key'')
      else
        (let row = stored_user (next_id d) now display_name username email password_hash
                     is_admin is_moderator is_verified is_premium
         in Inr (row, d\<lparr>users := users d @ [row], next_id := Suc (next_id d)\<rparr>)))"

definition insert_post :: "int \<Rightarrow> db \<Rightarrow> ident \<Rightarrow> string \<Rightarrow> error + post \<times> db" where
  "insert_post now d user_id content =
     (let row = \<lparr>p_id = next_id d, p_user_id = user_id, p_content = content, p_created_at = now\<rparr>
      in Inr (row, d\<lparr>posts := posts d @ [row], next_id := Suc (next_id d)\<rparr>))"

text \<open>\<open>update(...).eq('id', i)\<close>: every row with that id is rewritten, none is no error.\<close>

definition update_users :: "ident \<Rightarrow> (user \<Rightarrow> user) \<Rightarrow> db \<Rightarrow> error + db" where
  "update_users i f d = Inr (d\<lparr>users := map (\<lambda>u. if u_id u = i then f u else u) (users d)\<rparr>)"

definition update_reports :: "ident \<Rightarrow> (report \<Rightarrow> report) \<Rightarrow> db \<Rightarrow> error + db" where
  "update_reports i f d = Inr (d\<lparr>reports := map (\<lambda>r. if r_id r = i then f r else r) (reports d)\<rparr>)"

text \<open>Insert into admin_actions: the row is appended unless the store refuses it.\<close>

definition insert_admin_action :: "env \<Rightarrow> admin_action \<Rightarrow> db \<Rightarrow> error + db" where
  "insert_admin_action e a d =
     (if refuses_admin_action e a then Inl (Failure ''insert into admin_actions refused'')
      else Inr (d\<lparr>admin_actions := admin_actions d @ [a]\<rparr>))"

text \<open>\<open>.single()\<close>: the one row of a result, an error for none or several.\<close>

definition single :: "'a list \<Rightarrow> error + 'a" where
  "single rows = (case rows of [x] \<Rightarrow> Inr x | _ \<Rightarrow> Inl NotSingleRow)"

text \<open>
  \<open>new Date(t).toISOString()\<close>: a \<open>RangeError\<close> for \<open>NaN\<close> and beyond the range of dates,
  the timestamp otherwise.
\<close>

definition toISOString :: "int option \<Rightarrow> error + int" where
  "toISOString t =
     (case t of
        None \<Rightarrow> Inl InvalidTime
      | Some ms \<Rightarrow> if \<bar>ms\<bar> \<le> 8640000000000000 then Inr ms else Inl InvalidTime)"

section \<open>Server side: route handlers\<close>

text \<open>
  A handler takes the environment, the clock reading of the request, the store and the
  request, and gives the response and the store after it. A caught exception is the
  status 500 with the error's message.
\<close>

subsection \<open>POST /api/auth/register\<close>

text \<open>
  The pre-query filters on the texts of username and email as sent; \<open>find\<close> compares the
  rows with the values as sent; the hash is computed before the insert object is built,
  where \<open>username.toLowerCase()\<close> is evaluated before \<open>email.toLowerCase()\<close>.
\<close>

definition register :: "env \<Rightarrow> int \<Rightarrow> db \<Rightarrow> request \<Rightarrow> response \<times> db" where
  "register e now d req =
     (case handleValidationErrors
             [(''displayName'', isLength 1 (Some 50)),
              (''username'', isLength 3 (Some 30)),
              (''username'', matches_word),
              (''email'', isEmail e),
              (''password'', isLength 6 None)] req of
        Some r \<Rightarrow> (r, d)
      | None \<Rightarrow>
          (let displayName = req_body req ''displayName'';
               username = req_body req ''username'';
               email = req_body req ''email'';
               password = req_body req ''password'';
               existingUser = filter (\<lambda>u. u_username u = template username \<or>
                                            u_email u = template email) (users d)
           in if existingUser \<noteq> [] \<and>
                 find (\<lambda>u. strictly_equal (u_username u) username) existingUser \<noteq> None
              then (error_response 400 ''Username already exists'', d)
              else if existingUser \<noteq> [] \<and>
                      find (\<lambda>u. strictly_equal (u_email u) email) existingUser \<noteq> None
              then (error_response 400 ''Email already exists'', d)
              else
                (case bcrypt_hash e password of
                   Inl err \<Rightarrow> (error_response 500 (message err), d)
                 | Inr passwordHash \<Rightarrow>
                     (case method_call ''username'' ''toLowerCase'' toLowerCase username of
                        Inl err \<Rightarrow> (error_response 500 (message err), d)
                      | Inr lower_username \<Rightarrow>
                          (case method_call ''email'' ''toLowerCase'' toLowerCase email of
                             Inl err \<Rightarrow> (error_response 500 (message err), d)
                           | Inr lower_email \<Rightarrow>
                               (case insert_user e now d displayName lower_username lower_email
                                       passwordHash False False False False of
                                  Inl err \<Rightarrow> (error_response 500 (message err), d)
                                | Inr (user, d') \<Rightarrow>
                                    (let token = jwt_sign e now
                                           \<lparr>c_id = u_id user, c_username = u_username user,
                                            c_is_admin = u_is_admin user,
                                            c_is_moderator = u_is_moderator user\<rparr>
                                     in (\<lparr>status = 200,
                                           body = JObj [(''user'', without ''password_hash'' (user_json user)),
                                                        (''token'', JStr token),
                                                        (''message'', JStr ''User created successfully'')]\<rparr>,
                                         d'))))))))"

subsection \<open>POST /api/auth/login\<close>

definition login :: "env \<Rightarrow> int \<Rightarrow> db \<Rightarrow> request \<Rightarrow> response \<times> db" where
  "login e now d req =
     (case handleValidationErrors [(''identifier'', notEmpty), (''password'', notEmpty)] req of
        Some r \<Rightarrow> (r, d)
      | None \<Rightarrow>
          (let identifier = req_body req ''identifier'';
               password = req_body req ''password''
           in case single (filter (\<lambda>u. u_username u = template identifier \<or>
                                        u_email u = template identifier) (users d)) of
                Inl err \<Rightarrow> (error_response 401 ''Invalid credentials'', d)
              | Inr user \<Rightarrow>
                  (case bcrypt_compare e password (u_password_hash user) of
                     Inl err \<Rightarrow> (error_response 500 (message err), d)
                   | Inr validPassword \<Rightarrow>
                       if \<not> validPassword
                       then (error_response 401 ''Invalid credentials'', d)
                       else
                         (let token = jwt_sign e now
                                \<lparr>c_id = u_id user, c_username = u_username user,
                                 c_is_admin = u_is_admin user, c_is_moderator = u_is_moderator user\<rparr>
                          in (\<lparr>status = 200,
                                body = JObj [(''user'', without ''password_hash'' (user_json user)),
                                             (''token'', JStr token),
                                             (''message'', JStr ''Login successful'')]\<rparr>,
                              d)))))"

subsection \<open>POST /api/posts\<close>

definition create_post :: "env \<Rightarrow> int \<Rightarrow> db \<Rightarrow> request \<Rightarrow> response \<times> db" where
  "create_post e now d req =
     (case authenticateToken e now req of
        Inl r \<Rightarrow> (r, d)
      | Inr user \<Rightarrow>
          (case handleValidationErrors [(''content'', isLength 1 (Some 280))] req of
             Some r \<Rightarrow> (r, d)
           | None \<Rightarrow>
               (let content = req_body req ''content'';
                    userId = c_id user
                in case method_call ''content'' ''trim'' trim content of
                     Inl err \<Rightarrow> (error_response 500 (message err), d)
                   | Inr trimmed \<Rightarrow>
                       (case insert_post now d userId trimmed of
                          Inl err \<Rightarrow> (error_response 500 (message err), d)
                        | Inr (post, d') \<Rightarrow> (\<lparr>status = 200, body = post_json d' post\<rparr>, d')))))"

subsection \<open>GET /api/admin/users\<close>

text \<open>
  The listing selects every column, newest first. Without a page and a limit in the
  query the window is \<open>range(0, 49)\<close> and the pagination figures are those of page 1 and
  limit 50. With a search text the store's answer to the filter is taken from the
  environment, and so is the whole listing when a page or a limit was sent.
\<close>

definition admin_users :: "env \<Rightarrow> int \<Rightarrow> db \<Rightarrow> request \<Rightarrow> response \<times> db" where
  "admin_users e now d req =
     (case authenticateToken e now req of
        Inl r \<Rightarrow> (r, d)
      | Inr user \<Rightarrow>
          (case requireAdmin user of
             Some r \<Rightarrow> (r, d)
           | None \<Rightarrow>
               (let page = query req ''page'';
                    limit = query req ''limit'';
                    search = (case query req ''search'' of None \<Rightarrow> [] | Some s \<Rightarrow> s);
                    ordered = rev (sort_key u_created_at (users d))
                in case (if search \<noteq> [] then search_users e search ordered else Inr ordered) of
                     Inl err \<Rightarrow> (error_response 500 (message err), d)
                   | Inr found \<Rightarrow>
                       (case (if page = None \<and> limit = None
                              then Inr (take 50 found,
                                        JObj [(''page'', JNum 1),
                                              (''limit'', JNum 50),
                                              (''total'', JNum (int (length found))),
                                              (''pages'', JNum (int ((length found + 49) div 50)))])
                              else paged_users e page limit found) of
                          Inl err \<Rightarrow> (error_response 500 (message err), d)
                        | Inr (rows, pagination) \<Rightarrow>
                            (\<lparr>status = 200,
                              body = JObj [(''users'', JArr (map user_json rows)),
                                           (''pagination'', pagination)]\<rparr>,
                             d)))))"

subsection \<open>POST /api/admin/users/:id/ban and /unban\<close>

text \<open>
  \<open>duration_hours * 3600000\<close> reads the number of the value: of a string that passed
  \<open>isInt\<close> the integer its text stands for, of another value its number. The audit row
  gets reason and duration as they were sent, and the result of its insert is not looked
  at.
\<close>

definition ban :: "env \<Rightarrow> int \<Rightarrow> db \<Rightarrow> request \<Rightarrow> response \<times> db" where
  "ban e now d req =
     (case authenticateToken e now req of
        Inl r \<Rightarrow> (r, d)
      | Inr user \<Rightarrow>
          (case requireAdmin user of
             Some r \<Rightarrow> (r, d)
           | None \<Rightarrow>
               (case handleValidationErrors
                       [(''reason'', notEmpty), (''duration_hours'', isInt 1)] req of
                  Some r \<Rightarrow> (r, d)
                | None \<Rightarrow>
                    (let userId = params_id req;
                         reason = req_body req ''reason'';
                         duration_hours = req_body req ''duration_hours'';
                         adminId = c_id user;
                         hours = (case duration_hours of
                                    None \<Rightarrow> None
                                  | Some (Str s) \<Rightarrow> int_text s
                                  | Some (NonStr t n) \<Rightarrow> n)
                     in case toISOString (map_option (\<lambda>h. now + h * 3600000) hours) of
                          Inl err \<Rightarrow> (error_response 500 (message err), d)
                        | Inr until \<Rightarrow>
                            (case update_users userId
                                    (\<lambda>u. u\<lparr>u_is_banned := True, u_banned_until := Some until\<rparr>) d of
                               Inl err \<Rightarrow> (error_response 500 (message err), d)
                             | Inr d1 \<Rightarrow>
                                 (let d2 = (case insert_admin_action e
                                                   \<lparr>a_admin_id = adminId, a_target_user_id = userId,
                                                    a_action_type = ''ban'', a_reason = reason,
                                                    a_duration_hours = duration_hours\<rparr> d1 of
                                              Inl err \<Rightarrow> d1
                                            | Inr d' \<Rightarrow> d')
                                  in (message_response ''User banned successfully'', d2)))))))"

definition unban :: "env \<Rightarrow> int \<Rightarrow> db \<Rightarrow> request \<Rightarrow> response \<times> db" where
  "unban e now d req =
     (case authenticateToken e now req of
        Inl r \<Rightarrow> (r, d)
      | Inr user \<Rightarrow>
          (case requireAdmin user of
             Some r \<Rightarrow> (r, d)
           | None \<Rightarrow>
               (let userId = params_id req;
                    adminId = c_id user
                in case update_users userId
                          (\<lambda>u. u\<lparr>u_is_banned := False, u_banned_until := None\<rparr>) d of
                     Inl err \<Rightarrow> (error_response 500 (message err), d)
                   | Inr d1 \<Rightarrow>
                       (let d2 = (case insert_admin_action e
                                         \<lparr>a_admin_id = adminId, a_target_user_id = userId,
                                          a_action_type = ''unban'',
                                          a_reason = Some (Str ''Manual unban by admin''),
                                          a_duration_hours = None\<rparr> d1 of
                                    Inl err \<Rightarrow> d1
                                  | Inr d' \<Rightarrow> d')
                        in (message_response ''User unbanned successfully'', d2)))))"

subsection \<open>GET /api/admin/analytics\<close>

text \<open>\<open>rnd\<close> is the value of \<open>Math.floor(Math.random() * 100)\<close> drawn for the request.\<close>

definition analytics :: "env \<Rightarrow> int \<Rightarrow> nat \<Rightarrow> db \<Rightarrow> request \<Rightarrow> response \<times> db" where
  "analytics e now rnd d req =
     (case authenticateToken e now req of
        Inl r \<Rightarrow> (r, d)
      | Inr user \<Rightarrow>
          (case requireAdmin user of
             Some r \<Rightarrow> (r, d)
           | None \<Rightarrow>
               (let period = (case query req ''period'' of None \<Rightarrow> ''7d'' | Some p \<Rightarrow> p);
                    userStats = users d;
                    postStats = posts d;
                    revenueStats = JObj [(''total_revenue'', JNum 0),
                                         (''premium_users'', JNum 0),
                                         (''conversion_rate'', JNum 0)]
                in (\<lparr>status = 200,
                      body = JObj [(''user_growth'', JNum (int (length userStats))),
                                   (''total_posts'', JNum (int (length postStats))),
                                   (''active_today'', JNum (int rnd + 50)),
                                   (''revenue'', revenueStats)]\<rparr>,
                    d))))"

subsection \<open>POST /api/moderation/reports/:id/resolve\<close>

text \<open>
  An absent \<open>notes\<close> is \<open>undefined\<close> in the update object, which the JSON sent to the store
  leaves out: the column then keeps its value. The two comparisons of the action with
  \<open>'ban'\<close> and \<open>'delete'\<close> guard empty branches.
\<close>

definition resolve_report :: "env \<Rightarrow> int \<Rightarrow> db \<Rightarrow> request \<Rightarrow> response \<times> db" where
  "resolve_report e now d req =
     (case authenticateToken e now req of
        Inl r \<Rightarrow> (r, d)
      | Inr user \<Rightarrow>
          (case requireModerator user of
             Some r \<Rightarrow> (r, d)
           | None \<Rightarrow>
               (case handleValidationErrors
                       [(''action'', isIn [''dismiss'', ''warn'', ''ban'', ''delete''])] req of
                  Some r \<Rightarrow> (r, d)
                | None \<Rightarrow>
                    (let reportId = params_id req;
                         action = req_body req ''action'';
                         notes = req_body req ''notes'';
                         moderatorId = c_id user
                     in case update_reports reportId
                               (\<lambda>r. r\<lparr>r_status := ''resolved'',
                                       r_resolved_by := Some moderatorId,
                                       r_resolved_at := Some now,
                                       r_resolution_notes :=
                                         (case notes of None \<Rightarrow> r_resolution_notes r | Some n \<Rightarrow> Some n)\<rparr>) d of
                          Inl err \<Rightarrow> (error_response 500 (message err), d)
                        | Inr d1 \<Rightarrow>
                            (let d2 = (if strictly_equal ''ban'' action then d1
                                       else if strictly_equal ''delete'' action then d1
                                       else d1)
                             in (message_response ''Report resolved successfully'', d2))))))"

subsection \<open>The routes behind \<open>authenticateToken\<close>\<close>

datatype route =
  CreatePost | AdminUsers | Ban | Unban | Analytics | ResolveReport

fun serve :: "env \<Rightarrow> int \<Rightarrow> nat \<Rightarrow> db \<Rightarrow> route \<Rightarrow> request \<Rightarrow> response \<times> db" where
  "serve e now rnd d CreatePost req = create_post e now d req"
| "serve e now rnd d AdminUsers req = admin_users e now d req"
| "serve e now rnd d Ban req = ban e now d req"
| "serve e now rnd d Unban req = unban e now d req"
| "serve e now rnd d Analytics req = analytics e now rnd d req"
| "serve e now rnd d ResolveReport req = resolve_report e now d req"

section \<open>A concrete deployment for evaluating the handlers\<close>

text \<open>
  An environment with a toy token codec (four known tokens: an administrator's, a plain
  user's, an expired administrator's and one signed with another secret), a bcrypt that
  throws for everything but a string, a store that refuses no audit row, and a clock
  reading. The two listing functions of the environment are not used by the requests
  below; here they answer with an error.
\<close>

definition root_claims :: claims where
  "root_claims = \<lparr>c_id = 1, c_username = ''root'', c_is_admin = True, c_is_moderator = False\<rparr>"

definition alice_claims :: claims where
  "alice_claims = \<lparr>c_id = 2, c_username = ''alice'', c_is_admin = False, c_is_moderator = False\<rparr>"

definition decode0 :: "string \<Rightarrow> jwt option" where
  "decode0 token =
     (if token = ''root.tok''
      then Some \<lparr>payload = root_claims, signed_with = ''s3cret'', expires_at = 1700600000\<rparr>
      else if token = ''alice.tok''
      then Some \<lparr>payload = alice_claims, signed_with = ''s3cret'', expires_at = 1700600000\<rparr>
      else if token = ''old.tok''
      then Some \<lparr>payload = root_claims, signed_with = ''s3cret'', expires_at = 1600000000\<rparr>
      else if token = ''forged.tok''
      then Some \<lparr>payload = root_claims, signed_with = ''guess'', expires_at = 1700600000\<rparr>
      else None)"

definition hash0 :: "jv option \<Rightarrow> error + string" where
  "hash0 v =
     (case v of
        Some (Str p) \<Rightarrow> Inr (''bcrypt:'' @ p)
      | _ \<Rightarrow> Inl (Failure ''Illegal arguments''))"

definition compare0 :: "jv option \<Rightarrow> string \<Rightarrow> error + bool" where
  "compare0 v h =
     (case v of
        Some (Str p) \<Rightarrow> Inr (h = ''bcrypt:'' @ p)
      | _ \<Rightarrow> Inl (Failure ''Illegal arguments''))"

definition env0 :: env where
  "env0 = \<lparr>JWT_SECRET = ''s3cret'',
           jwt_decode = decode0,
           jwt_encode = (\<lambda>t. c_username (payload t) @ ''.tok''),
           bcrypt_hash = hash0,
           bcrypt_compare = compare0,
           isEmail = (\<lambda>s. CHR ''@'' \<in> set s),
           unique_constraints = True,
           refuses_admin_action = (\<lambda>a. False),
           search_users = (\<lambda>s rows. Inl (Failure ''search is not part of this deployment'')),
           paged_users = (\<lambda>p l rows. Inl (Failure ''paging is not part of this deployment''))\<rparr>"

definition env1 :: env where
  "env1 = env0\<lparr>unique_constraints := False\<rparr>"

text \<open>The same deployment with a store that refuses every audit row.\<close>

definition env2 :: env where
  "env2 = env0\<lparr>refuses_admin_action := (\<lambda>a. True)\<rparr>"

definition now0 :: int where
  "now0 = 1700000000000"

definition root_row :: user where
  "root_row = \<lparr>u_id = 1, u_display_name = Some (Str ''Root''), u_username = ''root'',
               u_email = ''root@example.com'', u_password_hash = ''bcrypt:toor!!'',
               u_is_admin = True, u_is_moderator = False, u_is_verified = True,
               u_is_premium = False, u_is_banned = False, u_banned_until = None,
               u_avatar_url = None, u_banner_url = None, u_bio = None, u_website = None,
               u_location = None, u_created_at = 1690000000000\<rparr>"

definition alice_row :: user where
  "alice_row = \<lparr>u_id = 2, u_display_name = Some (Str ''Alice''), u_username = ''alice'',
                u_email = ''alice@example.com'', u_password_hash = ''bcrypt:wonderland'',
                u_is_admin = False, u_is_moderator = False, u_is_verified = False,
                u_is_premium = False, u_is_banned = False, u_banned_until = None,
                u_avatar_url = None, u_banner_url = None, u_bio = None, u_website = None,
                u_location = None, u_created_at = 1695000000000\<rparr>"

definition post3 :: post where
  "post3 = \<lparr>p_id = 3, p_user_id = 2, p_content = ''hello'', p_created_at = 1696000000000\<rparr>"

definition report4 :: report where
  "report4 = \<lparr>r_id = 4, r_reporter_id = 1, r_reported_user_id = Some 2,
              r_reported_post_id = Some 3, r_status = ''pending'', r_resolved_by = None,
              r_resolved_at = None, r_resolution_notes = None, r_created_at = 1697000000000\<rparr>"

definition db0 :: db where
  "db0 = \<lparr>users = [root_row, alice_row], posts = [post3], reports = [report4],
          admin_actions = [], next_id = 5\<rparr>"

definition empty_db :: db where
  "empty_db = \<lparr>users = [], posts = [], reports = [], admin_actions = [], next_id = 1\<rparr>"

definition request0 :: request where
  "request0 = \<lparr>headers = Map.empty, params_id = 0, query = Map.empty, req_body = Map.empty\<rparr>"

definition as_root :: "request \<Rightarrow> request" where
  "as_root req = req\<lparr>headers := [''authorization'' \<mapsto> ''Bearer root.tok'']\<rparr>"

definition as_alice :: "request \<Rightarrow> request" where
  "as_alice req = req\<lparr>headers := [''authorization'' \<mapsto> ''Bearer alice.tok'']\<rparr>"

text \<open>A request with the given body fields, and one whose fields are all strings.\<close>

definition with_values :: "(string \<times> jv) list \<Rightarrow> request" where
  "with_values kvs = request0\<lparr>req_body := map_of kvs\<rparr>"

definition with_body :: "(string \<times> string) list \<Rightarrow> request" where
  "with_body kvs = with_values (map (\<lambda>(k, s). (k, Str s)) kvs)"

text \<open>Registration bodies: a mixed-case username, the same username again, and extra fields.\<close>

definition bob_request :: request where
  "bob_request = with_body [(''displayName'', ''Bob''), (''username'', ''Bob''),
                            (''email'', ''bob@example.com''), (''password'', ''hunter22'')]"

definition bob_again :: request where
  "bob_again = with_body [(''displayName'', ''Bobby''), (''username'', ''Bob''),
                          (''email'', ''bobby@example.com''), (''password'', ''hunter23'')]"

definition carol_request :: request where
  "carol_request = with_body [(''displayName'', ''Carol''), (''username'', ''carol''),
                              (''email'', ''carol@example.com''), (''password'', ''opensesame''),
                              (''is_admin'', ''true''), (''is_moderator'', ''true''),
                              (''is_verified'', ''true''), (''is_premium'', ''true'')]"

text \<open>Requests with a token that does not verify, and the moderation and admin requests.\<close>

definition with_token :: "string \<Rightarrow> request \<Rightarrow> request" where
  "with_token t req = req\<lparr>headers := [''authorization'' \<mapsto> ''Bearer '' @ t]\<rparr>"

definition expired_request :: request where
  "expired_request = with_token ''old.tok'' request0"

definition forged_request :: request where
  "forged_request = with_token ''forged.tok'' request0"

definition malformed_request :: request where
  "malformed_request = with_token ''garbage'' request0"

text \<open>
  Bans of alice: for 24 hours with the duration as a text, for 7 hours with the duration
  as the text \<open>007\<close>, and for 3 hours with the duration as a JSON number.
\<close>

definition ban_request :: request where
  "ban_request = (as_root (with_body [(''reason'', ''spam''), (''duration_hours'', ''24'')]))\<lparr>params_id := 2\<rparr>"

definition ban_request_007 :: request where
  "ban_request_007 =
     (as_root (with_body [(''reason'', ''spam''), (''duration_hours'', ''007'')]))\<lparr>params_id := 2\<rparr>"

definition ban_request_number :: request where
  "ban_request_number =
     (as_root (with_values [(''reason'', Str ''spam''),
                            (''duration_hours'', NonStr ''3'' (Some 3))]))\<lparr>params_id := 2\<rparr>"

definition unban_request :: request where
  "unban_request = (as_root request0)\<lparr>params_id := 2\<rparr>"

definition resolve_request :: "string \<Rightarrow> request" where
  "resolve_request action =
     (as_root (with_body [(''action'', action), (''notes'', ''checked'')]))\<lparr>params_id := 4\<rparr>"

definition analytics_request :: "string \<Rightarrow> request" where
  "analytics_request period = (as_root request0)\<lparr>query := [''period'' \<mapsto> period]\<rparr>"

text \<open>A store with a second report, for the rows a resolution must not touch.\<close>

definition report5 :: report where
  "report5 = \<lparr>r_id = 5, r_reporter_id = 2, r_reported_user_id = Some 1,
              r_reported_post_id = None, r_status = ''pending'', r_resolved_by = None,
              r_resolved_at = None, r_resolution_notes = None, r_created_at = 1698000000000\<rparr>"

definition db2 :: db where
  "db2 = db0\<lparr>reports := [report4, report5], next_id := 6\<rparr>"

section \<open>Properties\<close>

subsection \<open>Facts shared by the handlers\<close>

lemma authenticateToken_req_body:
  "authenticateToken e now (req\<lparr>req_body := b\<rparr>) = authenticateToken e now req"
  by (simp add: authenticateToken_def bearer_def)

lemma authenticateToken_query:
  "authenticateToken e now (req\<lparr>query := q\<rparr>) = authenticateToken e now req"
  by (simp add: authenticateToken_def bearer_def)

lemma fld_other_field:
  "k \<noteq> k' \<Longrightarrow> fld (req\<lparr>req_body := (req_body req)(k' := v)\<rparr>) k = fld req k"
  by (simp add: fld_def)

lemma handleValidationErrors_status:
  "handleValidationErrors chain req = Some r \<Longrightarrow> status r = 400"
  by (auto simp add: handleValidationErrors_def Let_def split: if_splits)

lemma handleValidationErrors_None:
  "handleValidationErrors chain req = None \<longleftrightarrow> (\<forall>(k, ok) \<in> set chain. ok (fld req k))"
  by (auto simp add: handleValidationErrors_def Let_def filter_empty_conv)

text \<open>
  What the create-post route does with a request that passed the gate: the length check
  on the text of the content, then \<open>trim()\<close>, which only a string has.
\<close>

lemma create_post_authenticated:
  "authenticateToken e now req = Inr user \<Longrightarrow>
   create_post e now d req =
     (if \<not> isLength 1 (Some 280) (fld req ''content'')
      then (\<lparr>status = 400,
             body = JObj [(''errors'',
                      JArr [JObj [(''msg'', JStr ''Invalid value''), (''path'', JStr ''content'')]])]\<rparr>,
            d)
      else (case req_body req ''content'' of
              Some (Str s) \<Rightarrow>
                (\<lparr>status = 200,
                  body = post_json
                    (d\<lparr>posts := posts d @ [\<lparr>p_id = next_id d, p_user_id = c_id user,
                                             p_content = trim s, p_created_at = now\<rparr>],
                       next_id := Suc (next_id d)\<rparr>)
                    \<lparr>p_id = next_id d, p_user_id = c_id user,
                     p_content = trim s, p_created_at = now\<rparr>\<rparr>,
                 d\<lparr>posts := posts d @ [\<lparr>p_id = next_id d, p_user_id = c_id user,
                                         p_content = trim s, p_created_at = now\<rparr>],
                   next_id := Suc (next_id d)\<rparr>)
            | Some (NonStr t n) \<Rightarrow> (error_response 500 ''content.trim is not a function'', d)
            | None \<Rightarrow>
                (error_response 500
                   (''Cannot read properties of undefined (reading '' @ [CHR 0x27] @ ''trim''
                      @ [CHR 0x27] @ '')''), d)))"
  by (simp add: create_post_def handleValidationErrors_def insert_post_def method_call_def
      Let_def split: option.splits jv.splits)

subsection \<open>C2: the owner of a created post\<close>

text \<open>
  C2. For a create-post request that passed \<open>authenticateToken\<close> with the claims \<open>user\<close>:
  setting, changing or removing the body field \<open>userId\<close> changes neither the response nor
  the store; when the post is created (status 200) exactly one row is appended to posts,
  and its \<open>user_id\<close> is the \<open>id\<close> claim of the token; otherwise the store is as before.
\<close>

theorem create_post_owner_from_token:
  "authenticateToken e now req = Inr user \<Longrightarrow>
   create_post e now d (req\<lparr>req_body := (req_body req)(''userId'' := v)\<rparr>) = create_post e now d req \<and>
   (status (fst (create_post e now d req)) = 200 \<longrightarrow>
      posts (snd (create_post e now d req)) =
        posts d @ [\<lparr>p_id = next_id d, p_user_id = c_id user,
                    p_content = trim (fld req ''content''), p_created_at = now\<rparr>]) \<and>
   (status (fst (create_post e now d req)) \<noteq> 200 \<longrightarrow> snd (create_post e now d req) = d)"
proof -
  assume auth: "authenticateToken e now req = Inr user"
  let ?req' = "req\<lparr>req_body := (req_body req)(''userId'' := v)\<rparr>"
  have auth': "authenticateToken e now ?req' = Inr user"
    using auth by (simp add: authenticateToken_req_body)
  have same_text: "fld ?req' ''content'' = fld req ''content''"
    by (rule fld_other_field) simp
  have content: "req_body ?req' ''content'' = req_body req ''content''"
    by simp
  have same: "create_post e now d ?req' = create_post e now d req"
    by (simp only: create_post_authenticated [OF auth'] create_post_authenticated [OF auth]
        same_text content)
  have stored: "status (fst (create_post e now d req)) = 200 \<longrightarrow>
      posts (snd (create_post e now d req)) =
        posts d @ [\<lparr>p_id = next_id d, p_user_id = c_id user,
                    p_content = trim (fld req ''content''), p_created_at = now\<rparr>]"
    by (simp add: create_post_authenticated [OF auth] error_response_def fld_def
        split: option.splits jv.splits)
  have kept: "status (fst (create_post e now d req)) \<noteq> 200 \<longrightarrow> snd (create_post e now d req) = d"
    by (simp add: create_post_authenticated [OF auth] split: option.splits jv.splits)
  from same stored kept show ?thesis
    by blast
qed

text \<open>
  The theorem at two requests of the user alice: one whose body names another user as
  \<open>userId\<close> (as a text, then as a number) and is stored under alice's id 2, and one with an empty content, refused.
\<close>

theorem create_post_owner_from_token_witness:
  "authenticateToken env0 now0 (as_alice (with_body [(''content'', '' hi ''), (''userId'', ''1'')]))
     = Inr alice_claims \<and>
   create_post env0 now0 db0
     ((as_alice (with_body [(''content'', '' hi ''), (''userId'', ''1'')]))
        \<lparr>req_body := (req_body (as_alice (with_body [(''content'', '' hi ''), (''userId'', ''1'')])))
                        (''userId'' := Some (NonStr ''2'' (Some 2)))\<rparr>)
     = create_post env0 now0 db0 (as_alice (with_body [(''content'', '' hi ''), (''userId'', ''1'')])) \<and>
   status (fst (create_post env0 now0 db0
      (as_alice (with_body [(''content'', '' hi ''), (''userId'', ''1'')])))) = 200 \<and>
   posts (snd (create_post env0 now0 db0
      (as_alice (with_body [(''content'', '' hi ''), (''userId'', ''1'')])))) =
     [post3, \<lparr>p_id = 5, p_user_id = 2, p_content = ''hi'', p_created_at = now0\<rparr>] \<and>
   authenticateToken env0 now0 (as_alice (with_body [(''userId'', ''1'')])) = Inr alice_claims \<and>
   status (fst (create_post env0 now0 db0 (as_alice (with_body [(''userId'', ''1'')])))) \<noteq> 200 \<and>
   snd (create_post env0 now0 db0 (as_alice (with_body [(''userId'', ''1'')]))) = db0"
proof -
  let ?r = "as_alice (with_body [(''content'', '' hi ''), (''userId'', ''1'')])"
  let ?q = "as_alice (with_body [(''userId'', ''1'')])"
  have a: "authenticateToken env0 now0 ?r = Inr alice_claims"
    by code_simp
  have b: "authenticateToken env0 now0 ?q = Inr alice_claims"
    by code_simp
  have s: "status (fst (create_post env0 now0 db0 ?r)) = 200"
    by code_simp
  have t: "status (fst (create_post env0 now0 db0 ?q)) \<noteq> 200"
    by code_simp
  have row: "posts db0 @ [\<lparr>p_id = next_id db0, p_user_id = c_id alice_claims,
                           p_content = trim (fld ?r ''content''), p_created_at = now0\<rparr>]
             = [post3, \<lparr>p_id = 5, p_user_id = 2, p_content = ''hi'', p_created_at = now0\<rparr>]"
    by code_simp
  show ?thesis
    using create_post_owner_from_token [OF a, of db0 "Some (NonStr ''2'' (Some 2))"]
      create_post_owner_from_token [OF b, of db0 None] a b s t row
    by simp
qed

subsection \<open>C4: which contents the create-post route accepts\<close>

lemma length_trim_le: "length (trim s) \<le> length s"
proof -
  have "length (trim s) \<le> length (dropWhile is_space s)"
    unfolding trim_def using length_dropWhile_le [of is_space "rev (dropWhile is_space s)"] by simp
  also have "\<dots> \<le> length s"
    by (rule length_dropWhile_le)
  finally show ?thesis .
qed

text \<open>
  A content that is not a string and whose text passes the length check (the number 123,
  say) reaches \<open>content.trim()\<close>, which throws: the answer is 500 with the message of the
  \<open>TypeError\<close>, and nothing is stored.
\<close>

lemma create_post_non_string_content:
  "authenticateToken e now req = Inr user \<Longrightarrow>
   req_body req ''content'' = Some (NonStr t n) \<Longrightarrow>
   1 \<le> length t \<Longrightarrow> length t \<le> 280 \<Longrightarrow>
   create_post e now d req = (error_response 500 ''content.trim is not a function'', d)"
  by (simp add: create_post_authenticated isLength_def fld_def)

text \<open>
  C4 as stated fails: the length validator reads the content as sent, before \<open>trim()\<close>.
  A content of 280 letters and one trailing blank trims to 280 characters and is refused;
  a content of one blank trims to the empty string, is accepted and stored empty.
\<close>

theorem create_post_trim_counterexample:
  "length (trim (replicate 280 (CHR ''a'') @ '' '')) = 280 \<and>
   status (fst (create_post env0 now0 db0
      (as_alice (with_body [(''content'', replicate 280 (CHR ''a'') @ '' '')])))) = 400 \<and>
   trim '' '' = [] \<and>
   status (fst (create_post env0 now0 db0 (as_alice (with_body [(''content'', '' '')])))) = 200 \<and>
   posts (snd (create_post env0 now0 db0 (as_alice (with_body [(''content'', '' '')])))) =
     [post3, \<lparr>p_id = 5, p_user_id = 2, p_content = [], p_created_at = now0\<rparr>]"
  by code_simp

text \<open>
  C4, amended. For a request that passed \<open>authenticateToken\<close>: a content that is absent,
  or whose text as sent is empty or longer than 280 characters, is refused with status
  400 and nothing is stored; a content that is a string of 1 to 280 characters as sent
  and not only white space is accepted, and the stored content is the trimmed string, of
  1 to 280 characters; a content that is not a string is never accepted and nothing is
  stored for it. (Strings of 1 to 280 characters that are only white space are not
  covered.)
\<close>

theorem create_post_length_window:
  "authenticateToken e now req = Inr user \<Longrightarrow>
   (fld req ''content'' = [] \<or> 280 < length (fld req ''content'') \<longrightarrow>
      status (fst (create_post e now d req)) = 400 \<and> snd (create_post e now d req) = d) \<and>
   (\<forall>s. req_body req ''content'' = Some (Str s) \<and> 1 \<le> length s \<and> length s \<le> 280 \<and>
        trim s \<noteq> [] \<longrightarrow>
      status (fst (create_post e now d req)) = 200 \<and>
      posts (snd (create_post e now d req)) =
        posts d @ [\<lparr>p_id = next_id d, p_user_id = c_id user,
                    p_content = trim s, p_created_at = now\<rparr>] \<and>
      1 \<le> length (trim s) \<and> length (trim s) \<le> 280) \<and>
   (\<forall>t n. req_body req ''content'' = Some (NonStr t n) \<longrightarrow>
      status (fst (create_post e now d req)) \<noteq> 200 \<and> snd (create_post e now d req) = d)"
proof -
  assume auth: "authenticateToken e now req = Inr user"
  have refused: "fld req ''content'' = [] \<or> 280 < length (fld req ''content'') \<longrightarrow>
      status (fst (create_post e now d req)) = 400 \<and> snd (create_post e now d req) = d"
    by (auto simp add: create_post_authenticated [OF auth] isLength_def)
  have accepted: "\<forall>s. req_body req ''content'' = Some (Str s) \<and> 1 \<le> length s \<and> length s \<le> 280 \<and>
        trim s \<noteq> [] \<longrightarrow>
      status (fst (create_post e now d req)) = 200 \<and>
      posts (snd (create_post e now d req)) =
        posts d @ [\<lparr>p_id = next_id d, p_user_id = c_id user,
                    p_content = trim s, p_created_at = now\<rparr>] \<and>
      1 \<le> length (trim s) \<and> length (trim s) \<le> 280"
  proof (intro allI impI)
    fix s
    assume h: "req_body req ''content'' = Some (Str s) \<and> 1 \<le> length s \<and> length s \<le> 280 \<and>
        trim s \<noteq> []"
    have le: "length (trim s) \<le> length s"
      by (rule length_trim_le)
    have pos: "1 \<le> length (trim s)"
      using h by (cases "trim s") simp_all
    show "status (fst (create_post e now d req)) = 200 \<and>
      posts (snd (create_post e now d req)) =
        posts d @ [\<lparr>p_id = next_id d, p_user_id = c_id user,
                    p_content = trim s, p_created_at = now\<rparr>] \<and>
      1 \<le> length (trim s) \<and> length (trim s) \<le> 280"
      using h le pos by (simp add: create_post_authenticated [OF auth] isLength_def fld_def)
  qed
  have other: "\<forall>t n. req_body req ''content'' = Some (NonStr t n) \<longrightarrow>
      status (fst (create_post e now d req)) \<noteq> 200 \<and> snd (create_post e now d req) = d"
    by (auto simp add: create_post_authenticated [OF auth] error_response_def)
  from refused accepted other show ?thesis
    by blast
qed

text \<open>
  The theorem at a content of 281 letters (refused), at one of 280 letters (stored as it
  is), and at the JSON number 123 (answered with 500, nothing stored).
\<close>

theorem create_post_length_window_witness:
  "authenticateToken env0 now0 (as_alice (with_body [(''content'', replicate 281 (CHR ''a''))]))
     = Inr alice_claims \<and>
   280 < length (fld (as_alice (with_body [(''content'', replicate 281 (CHR ''a''))])) ''content'') \<and>
   status (fst (create_post env0 now0 db0
      (as_alice (with_body [(''content'', replicate 281 (CHR ''a''))])))) = 400 \<and>
   snd (create_post env0 now0 db0
      (as_alice (with_body [(''content'', replicate 281 (CHR ''a''))]))) = db0 \<and>
   authenticateToken env0 now0 (as_alice (with_body [(''content'', replicate 280 (CHR ''a''))]))
     = Inr alice_claims \<and>
   req_body (as_alice (with_body [(''content'', replicate 280 (CHR ''a''))])) ''content'' =
     Some (Str (replicate 280 (CHR ''a''))) \<and>
   status (fst (create_post env0 now0 db0
      (as_alice (with_body [(''content'', replicate 280 (CHR ''a''))])))) = 200 \<and>
   posts (snd (create_post env0 now0 db0
      (as_alice (with_body [(''content'', replicate 280 (CHR ''a''))])))) =
     [post3, \<lparr>p_id = 5, p_user_id = 2, p_content = replicate 280 (CHR ''a''), p_created_at = now0\<rparr>] \<and>
   authenticateToken env0 now0 (as_alice (with_values [(''content'', NonStr ''123'' (Some 123))]))
     = Inr alice_claims \<and>
   req_body (as_alice (with_values [(''content'', NonStr ''123'' (Some 123))])) ''content'' =
     Some (NonStr ''123'' (Some 123)) \<and>
   status (fst (create_post env0 now0 db0
      (as_alice (with_values [(''content'', NonStr ''123'' (Some 123))])))) \<noteq> 200 \<and>
   snd (create_post env0 now0 db0
      (as_alice (with_values [(''content'', NonStr ''123'' (Some 123))]))) = db0"
proof -
  let ?long = "as_alice (with_body [(''content'', replicate 281 (CHR ''a''))])"
  let ?full = "as_alice (with_body [(''content'', replicate 280 (CHR ''a''))])"
  let ?num = "as_alice (with_values [(''content'', NonStr ''123'' (Some 123))])"
  have a: "authenticateToken env0 now0 ?long = Inr alice_claims"
    by code_simp
  have b: "authenticateToken env0 now0 ?full = Inr alice_claims"
    by code_simp
  have c: "authenticateToken env0 now0 ?num = Inr alice_claims"
    by code_simp
  have l: "fld ?long ''content'' = replicate 281 (CHR ''a'')"
    by (simp add: fld_def as_alice_def with_body_def with_values_def)
  have f: "req_body ?full ''content'' = Some (Str (replicate 280 (CHR ''a'')))"
    by (simp add: as_alice_def with_body_def with_values_def)
  have n: "req_body ?num ''content'' = Some (NonStr ''123'' (Some 123))"
    by (simp add: as_alice_def with_values_def)
  have t: "trim (replicate 280 (CHR ''a'')) = replicate 280 (CHR ''a'')"
    by code_simp
  have ne: "replicate 280 (CHR ''a'') \<noteq> []"
    by simp
  have row: "posts db0 @ [\<lparr>p_id = next_id db0, p_user_id = c_id alice_claims,
                           p_content = replicate 280 (CHR ''a''), p_created_at = now0\<rparr>]
             = [post3, \<lparr>p_id = 5, p_user_id = 2, p_content = replicate 280 (CHR ''a''),
                        p_created_at = now0\<rparr>]"
    by (simp add: db0_def alice_claims_def)
  show ?thesis
    using create_post_length_window [OF a, of db0] create_post_length_window [OF b, of db0]
      create_post_length_window [OF c, of db0] a b c l f n t ne row
    by simp
qed

subsection \<open>Registration\<close>

text \<open>
  A registration either leaves the store alone (400, 500) or appends one row (200); the
  row is appended only for a username and an email that are strings.
\<close>

lemma register_outcome:
  "register e now d req = (r, d') \<Longrightarrow>
     (d' = d \<and> (status r = 400 \<or> status r = 500)) \<or>
     (status r = 200 \<and>
      (\<exists>s m h. req_body req ''username'' = Some (Str s) \<and>
         req_body req ''email'' = Some (Str m) \<and>
         bcrypt_hash e (req_body req ''password'') = Inr h \<and>
         d' = d\<lparr>users := users d @
                     [stored_user (next_id d) now (req_body req ''displayName'')
                        (toLowerCase s) (toLowerCase m) h False False False False],
                  next_id := Suc (next_id d)\<rparr>))"
proof (cases "handleValidationErrors
             [(''displayName'', isLength 1 (Some 50)),
              (''username'', isLength 3 (Some 30)),
              (''username'', matches_word),
              (''email'', isEmail e),
              (''password'', isLength 6 None)] req")
  case (Some r')
  assume run: "register e now d req = (r, d')"
  from Some have "register e now d req = (r', d)"
    by (simp add: register_def)
  moreover have "status r' = 400"
    using Some by (rule handleValidationErrors_status)
  ultimately show ?thesis using run by simp
next
  case None
  assume run: "register e now d req = (r, d')"
  show ?thesis
    using run None
    by (auto simp add: register_def insert_user_def method_call_def error_response_def Let_def
        split: if_splits sum.splits option.splits jv.splits)
qed

subsection \<open>C9: registration never creates a privileged account\<close>

text \<open>
  C9. Whatever the request body holds: a successful registration (status 200) appends
  exactly one users row, and that row has \<open>is_admin\<close>, \<open>is_moderator\<close>, \<open>is_verified\<close> and
  \<open>is_premium\<close> false; any other outcome leaves the store as it was. So every users row
  that a registration adds has the four flags false.
\<close>

theorem register_never_privileged:
  "(status (fst (register e now d req)) = 200 \<longrightarrow>
      (\<exists>u. users (snd (register e now d req)) = users d @ [u] \<and>
           u_username u = toLowerCase (fld req ''username'') \<and>
           u_is_admin u = False \<and> u_is_moderator u = False \<and>
           u_is_verified u = False \<and> u_is_premium u = False)) \<and>
   (status (fst (register e now d req)) \<noteq> 200 \<longrightarrow> snd (register e now d req) = d) \<and>
   (\<forall>u \<in> set (users (snd (register e now d req))).
      u \<notin> set (users d) \<longrightarrow>
        u_is_admin u = False \<and> u_is_moderator u = False \<and>
        u_is_verified u = False \<and> u_is_premium u = False)"
  using register_outcome [of e now d req "fst (register e now d req)" "snd (register e now d req)"]
  by (auto simp add: stored_user_def fld_def)

text \<open>
  The theorem at a body that asks for all four flags: the account is created, and the
  one row that is new has none of them.
\<close>

theorem register_never_privileged_witness:
  "status (fst (register env0 now0 db0 carol_request)) = 200 \<and>
   length (users (snd (register env0 now0 db0 carol_request))) = 3 \<and>
   last (users (snd (register env0 now0 db0 carol_request))) \<in>
     set (users (snd (register env0 now0 db0 carol_request))) \<and>
   last (users (snd (register env0 now0 db0 carol_request))) \<notin> set (users db0) \<and>
   u_username (last (users (snd (register env0 now0 db0 carol_request)))) = ''carol'' \<and>
   u_is_admin (last (users (snd (register env0 now0 db0 carol_request)))) = False \<and>
   u_is_moderator (last (users (snd (register env0 now0 db0 carol_request)))) = False \<and>
   u_is_verified (last (users (snd (register env0 now0 db0 carol_request)))) = False \<and>
   u_is_premium (last (users (snd (register env0 now0 db0 carol_request)))) = False"
proof -
  let ?d = "snd (register env0 now0 db0 carol_request)"
  have s: "status (fst (register env0 now0 db0 carol_request)) = 200"
    by code_simp
  have n: "length (users ?d) = 3"
    by code_simp
  have i: "last (users ?d) \<in> set (users ?d)"
    using n by (intro last_in_set) auto
  have o: "last (users ?d) \<notin> set (users db0)"
    by code_simp
  have u: "u_username (last (users ?d)) = ''carol''"
    by code_simp
  show ?thesis
    using register_never_privileged [of env0 now0 db0 carol_request] s n i o u
    by blast
qed

subsection \<open>C3: registering a name or an address twice\<close>

text \<open>
  What the pre-query does catch: a username (an email) that some row of the store holds
  exactly as the request sends it.
\<close>

lemma register_known_username:
  assumes mem: "\<exists>u \<in> set (users d). u_username u = s"
    and sent: "req_body req ''username'' = Some (Str s)"
    and valid: "handleValidationErrors
                  [(''displayName'', isLength 1 (Some 50)),
                   (''username'', isLength 3 (Some 30)),
                   (''username'', matches_word),
                   (''email'', isEmail e),
                   (''password'', isLength 6 None)] req = None"
  shows "register e now d req = (error_response 400 ''Username already exists'', d)"
proof -
  let ?found = "filter (\<lambda>u. u_username u = template (req_body req ''username'') \<or>
                            u_email u = template (req_body req ''email'')) (users d)"
  from mem sent have some: "?found \<noteq> []"
    by (auto simp add: filter_empty_conv template_def)
  from mem sent
  have name: "find (\<lambda>u. strictly_equal (u_username u) (req_body req ''username'')) ?found \<noteq> None"
    by (auto simp add: find_None_iff template_def strictly_equal_def)
  show ?thesis
    using valid some name by (simp add: register_def Let_def)
qed

lemma register_known_email:
  assumes mem: "\<exists>u \<in> set (users d). u_email u = m"
    and sent: "req_body req ''email'' = Some (Str m)"
    and other: "\<forall>u \<in> set (users d). \<not> strictly_equal (u_username u) (req_body req ''username'')"
    and valid: "handleValidationErrors
                  [(''displayName'', isLength 1 (Some 50)),
                   (''username'', isLength 3 (Some 30)),
                   (''username'', matches_word),
                   (''email'', isEmail e),
                   (''password'', isLength 6 None)] req = None"
  shows "register e now d req = (error_response 400 ''Email already exists'', d)"
proof -
  let ?found = "filter (\<lambda>u. u_username u = template (req_body req ''username'') \<or>
                            u_email u = template (req_body req ''email'')) (users d)"
  from mem sent have some: "?found \<noteq> []"
    by (auto simp add: filter_empty_conv template_def)
  from mem sent
  have mail: "find (\<lambda>u. strictly_equal (u_email u) (req_body req ''email'')) ?found \<noteq> None"
    by (auto simp add: find_None_iff template_def strictly_equal_def)
  from other
  have name: "find (\<lambda>u. strictly_equal (u_username u) (req_body req ''username'')) ?found = None"
    by (auto simp add: find_None_iff)
  show ?thesis
    using valid some name mail by (simp add: register_def Let_def)
qed

text \<open>
  So a second registration is answered with the duplicate error, and the store is left
  as the first registration made it, when the first username (email) was stored as it was
  sent, that is when it has no upper-case letter.
\<close>

lemma register_duplicate_username:
  assumes first: "status (fst (register e now d req)) = 200"
    and lower: "toLowerCase (fld req ''username'') = fld req ''username''"
    and same: "req_body req' ''username'' = req_body req ''username''"
    and valid: "handleValidationErrors
                  [(''displayName'', isLength 1 (Some 50)),
                   (''username'', isLength 3 (Some 30)),
                   (''username'', matches_word),
                   (''email'', isEmail e),
                   (''password'', isLength 6 None)] req' = None"
  shows "register e now' (snd (register e now d req)) req' =
           (error_response 400 ''Username already exists'', snd (register e now d req))"
proof -
  define d1 where "d1 = snd (register e now d req)"
  from register_outcome [of e now d req "fst (register e now d req)" d1] first
  obtain s m h where name: "req_body req ''username'' = Some (Str s)"
    and rows: "users d1 = users d @
                 [stored_user (next_id d) now (req_body req ''displayName'')
                    (toLowerCase s) (toLowerCase m) h False False False False]"
    unfolding d1_def by auto
  have "toLowerCase s = s"
    using lower name by (simp add: fld_def)
  then have mem: "\<exists>u \<in> set (users d1). u_username u = s"
    using rows by (simp add: stored_user_def)
  have sent: "req_body req' ''username'' = Some (Str s)"
    using same name by simp
  have "register e now' d1 req' = (error_response 400 ''Username already exists'', d1)"
    using mem sent valid by (rule register_known_username)
  then show ?thesis
    unfolding d1_def .
qed

lemma register_duplicate_email:
  assumes first: "status (fst (register e now d req)) = 200"
    and lower: "toLowerCase (fld req ''email'') = fld req ''email''"
    and same: "req_body req' ''email'' = req_body req ''email''"
    and other: "\<forall>u \<in> set (users (snd (register e now d req))).
                  \<not> strictly_equal (u_username u) (req_body req' ''username'')"
    and valid: "handleValidationErrors
                  [(''displayName'', isLength 1 (Some 50)),
                   (''username'', isLength 3 (Some 30)),
                   (''username'', matches_word),
                   (''email'', isEmail e),
                   (''password'', isLength 6 None)] req' = None"
  shows "register e now' (snd (register e now d req)) req' =
           (error_response 400 ''Email already exists'', snd (register e now d req))"
proof -
  define d1 where "d1 = snd (register e now d req)"
  from register_outcome [of e now d req "fst (register e now d req)" d1] first
  obtain s m h where mail: "req_body req ''email'' = Some (Str m)"
    and rows: "users d1 = users d @
                 [stored_user (next_id d) now (req_body req ''displayName'')
                    (toLowerCase s) (toLowerCase m) h False False False False]"
    unfolding d1_def by auto
  have "toLowerCase m = m"
    using lower mail by (simp add: fld_def)
  then have mem: "\<exists>u \<in> set (users d1). u_email u = m"
    using rows by (simp add: stored_user_def)
  have sent: "req_body req' ''email'' = Some (Str m)"
    using same mail by simp
  have free: "\<forall>u \<in> set (users d1). \<not> strictly_equal (u_username u) (req_body req' ''username'')"
    using other unfolding d1_def .
  have "register e now' d1 req' = (error_response 400 ''Email already exists'', d1)"
    using mem sent free valid by (rule register_known_email)
  then show ?thesis
    unfolding d1_def .
qed

text \<open>
  C3 at a username with an upper-case letter. The first registration of \<open>Bob\<close> stores
  \<open>bob\<close>. The second one asks the store for \<open>Bob\<close>, finds no row and goes on to insert
  \<open>bob\<close> again: with the unique columns enforced the insert is refused and the answer is
  500 with the store's message; without them a second \<open>bob\<close> row is stored and the
  answer is 200. Neither is the 400 duplicate-username error.
\<close>

theorem register_mixed_case_duplicate:
  "status (fst (register env0 now0 empty_db bob_request)) = 200 \<and>
   map u_username (users (snd (register env0 now0 empty_db bob_request))) = [''bob''] \<and>
   fst (register env0 now0 (snd (register env0 now0 empty_db bob_request)) bob_again) =
     error_response 500 ''duplicate key value violates unique constraint users_username_key'' \<and>
   status (fst (register env1 now0 (snd (register env1 now0 empty_db bob_request)) bob_again)) = 200 \<and>
   map u_username
     (users (snd (register env1 now0 (snd (register env1 now0 empty_db bob_request)) bob_again))) =
     [''bob'', ''bob'']"
  by code_simp

subsection \<open>C1: the password hash in response bodies\<close>

text \<open>Register and login remove the \<open>password_hash\<close> field from the row they return.\<close>

lemma register_hides_password_hash:
  "\<not> has_key ''password_hash'' (body (fst (register e now d req)))"
  by (simp add: register_def insert_user_def stored_user_def handleValidationErrors_def
      error_response_def Let_def user_json_def jopt_def jv_json_def list_ex_iff
      split: option.splits prod.splits sum.splits)

lemma login_hides_password_hash:
  "\<not> has_key ''password_hash'' (body (fst (login e now d req)))"
  by (simp add: login_def single_def handleValidationErrors_def error_response_def
      Let_def user_json_def jopt_def jv_json_def list_ex_iff
      split: option.splits prod.splits list.splits sum.splits)

text \<open>
  C1 at the admin listing. The listing selects every column and sends the rows as they
  are: for the administrator's request without query parameters the body holds both
  users rows, each with its \<open>password_hash\<close> field and the stored hash in it.
\<close>

theorem admin_users_returns_password_hash:
  "status (fst (admin_users env0 now0 db0 (as_root request0))) = 200 \<and>
   has_key ''password_hash'' (body (fst (admin_users env0 now0 db0 (as_root request0)))) \<and>
   field ''users'' (body (fst (admin_users env0 now0 db0 (as_root request0)))) =
     Some (JArr [user_json alice_row, user_json root_row]) \<and>
   field ''password_hash'' (user_json alice_row) = Some (JStr (u_password_hash alice_row))"
  by code_simp

subsection \<open>C5: the authenticate gate\<close>

text \<open>A request that the gate refuses gets the gate's response from every route, and the store is untouched.\<close>

lemma serve_rejected:
  "authenticateToken e now req = Inl r \<Longrightarrow> serve e now rnd d rt req = (r, d)"
  by (cases rt)
    (simp_all add: create_post_def admin_users_def ban_def unban_def analytics_def resolve_report_def)

text \<open>
  C5 as stated fails on the status of a token that does not verify: an expired token, a
  token signed with another secret and a malformed token are each answered with 403, not
  401, although the first two carry an administrator's claims.
\<close>

theorem authenticate_gate_counterexample:
  "status (fst (serve env0 now0 0 db0 CreatePost expired_request)) = 403 \<and>
   status (fst (serve env0 now0 0 db0 CreatePost forged_request)) = 403 \<and>
   status (fst (serve env0 now0 0 db0 CreatePost malformed_request)) = 403"
  by code_simp

text \<open>
  C5, amended. The gate answers a request without a token with 401; it answers a token
  that fails verification (malformed, wrongly signed or expired) with 403, whatever
  claims the token carries; only a token that decodes, carries the server's signature and
  has not expired lets the request through, with its claims. A refused request gets that
  response from the route and leaves the store as it was. The role gates answer an
  insufficient role with 403 as well, so 403 is shared by invalid tokens and roles.
\<close>

theorem authenticate_gate:
  "authenticateToken e now req =
     (case bearer req of
        None \<Rightarrow> Inl (error_response 401 ''Access token required'')
      | Some token \<Rightarrow>
          (case jwt_decode e token of
             None \<Rightarrow> Inl (error_response 403 ''Invalid token'')
           | Some t \<Rightarrow>
               if signed_with t \<noteq> JWT_SECRET e \<or> expires_at t \<le> now div 1000
               then Inl (error_response 403 ''Invalid token'')
               else Inr (payload t))) \<and>
   (\<forall>r. authenticateToken e now req = Inl r \<longrightarrow> serve e now rnd d rt req = (r, d)) \<and>
   requireAdmin user =
     (if c_is_admin user then None else Some (error_response 403 ''Admin access required'')) \<and>
   requireModerator user =
     (if c_is_admin user \<or> c_is_moderator user then None
      else Some (error_response 403 ''Moderator access required''))"
  by (auto simp add: authenticateToken_def jwt_verify_def requireAdmin_def requireModerator_def
      serve_rejected split: option.splits)

text \<open>
  The theorem at a request without a header, at the expired, the forged and the malformed
  token, and at the plain user's request, which passes the gate and fails both role gates.
\<close>

theorem authenticate_gate_witness:
  "bearer request0 = None \<and>
   serve env0 now0 0 db0 Ban request0 = (error_response 401 ''Access token required'', db0) \<and>
   bearer expired_request = Some ''old.tok'' \<and>
   jwt_decode env0 ''old.tok'' =
     Some \<lparr>payload = root_claims, signed_with = ''s3cret'', expires_at = 1600000000\<rparr> \<and>
   c_is_admin root_claims \<and>
   serve env0 now0 0 db0 Ban expired_request = (error_response 403 ''Invalid token'', db0) \<and>
   bearer forged_request = Some ''forged.tok'' \<and>
   serve env0 now0 0 db0 Unban forged_request = (error_response 403 ''Invalid token'', db0) \<and>
   bearer malformed_request = Some ''garbage'' \<and>
   jwt_decode env0 ''garbage'' = None \<and>
   serve env0 now0 0 db0 CreatePost malformed_request = (error_response 403 ''Invalid token'', db0) \<and>
   authenticateToken env0 now0 (as_alice request0) = Inr alice_claims \<and>
   requireAdmin alice_claims = Some (error_response 403 ''Admin access required'') \<and>
   requireModerator alice_claims = Some (error_response 403 ''Moderator access required'')"
proof -
  have b: "bearer request0 = None" "bearer expired_request = Some ''old.tok''"
    "bearer forged_request = Some ''forged.tok''" "bearer malformed_request = Some ''garbage''"
    "bearer (as_alice request0) = Some ''alice.tok''"
    by code_simp+
  have j: "jwt_decode env0 ''old.tok'' =
             Some \<lparr>payload = root_claims, signed_with = ''s3cret'', expires_at = 1600000000\<rparr>"
    "jwt_decode env0 ''forged.tok'' =
             Some \<lparr>payload = root_claims, signed_with = ''guess'', expires_at = 1700600000\<rparr>"
    "jwt_decode env0 ''garbage'' = None"
    "jwt_decode env0 ''alice.tok'' =
             Some \<lparr>payload = alice_claims, signed_with = ''s3cret'', expires_at = 1700600000\<rparr>"
    by code_simp+
  have k: "JWT_SECRET env0 = ''s3cret''" "now0 div 1000 = 1700000000" "c_is_admin root_claims"
    "\<not> c_is_admin alice_claims" "\<not> c_is_moderator alice_claims"
    by code_simp+
  show ?thesis
    using authenticate_gate [of env0 now0 request0 0 db0 Ban alice_claims]
      authenticate_gate [of env0 now0 expired_request 0 db0 Ban alice_claims]
      authenticate_gate [of env0 now0 forged_request 0 db0 Unban alice_claims]
      authenticate_gate [of env0 now0 malformed_request 0 db0 CreatePost alice_claims]
      authenticate_gate [of env0 now0 "as_alice request0" 0 db0 CreatePost alice_claims]
      b j k
    by simp
qed

subsection \<open>C6: banning and unbanning\<close>

text \<open>
  The duration of a ban is read from the text that was sent. The following lemmas fix
  that reading: the decimal numeral of \<open>n\<close>, with any number of zeros before it, is read
  as \<open>n\<close>, and a text that passes \<open>isInt\<close> is read as an integer of at least the minimum.
\<close>

lemma digits_value_snoc:
  "digits_value (ds @ [c]) = 10 * digits_value ds + (of_char c - 48)"
  by (simp add: digits_value_def)

lemma of_char_digit: "k < 10 \<Longrightarrow> of_char (char_of (48 + k)) - 48 = (k :: nat)"
  by simp

lemma is_digit_char_of: "(k :: nat) < 10 \<Longrightarrow> is_digit (char_of (48 + k))"
  by (simp add: is_digit_def less_eq_char_def)

lemma dec_small: "n < 10 \<Longrightarrow> dec n = [char_of (48 + n)]"
  by (subst dec.simps) simp

lemma dec_large: "\<not> n < 10 \<Longrightarrow> dec n = dec (n div 10) @ [char_of (48 + n mod 10)]"
  by (subst dec.simps) simp

lemma digits_value_dec: "digits_value (dec n) = n"
proof (induction n rule: dec.induct)
  case (1 n)
  show ?case
  proof (cases "n < 10")
    case True
    then show ?thesis
      by (simp add: dec_small digits_value_def)
  next
    case False
    have l: "of_char (char_of (48 + n mod 10)) - 48 = n mod 10"
      by (rule of_char_digit) simp
    have "digits_value (dec n) = 10 * digits_value (dec (n div 10)) + n mod 10"
      by (simp only: dec_large [OF False] digits_value_snoc l)
    also have "\<dots> = 10 * (n div 10) + n mod 10"
      using "1.IH" False by simp
    finally show ?thesis
      by simp
  qed
qed

lemma digits_dec: "dec n \<noteq> [] \<and> list_all is_digit (dec n)"
proof (induction n rule: dec.induct)
  case (1 n)
  show ?case
  proof (cases "n < 10")
    case True
    then show ?thesis
      by (simp add: dec_small is_digit_char_of)
  next
    case False
    have "is_digit (char_of (48 + n mod 10))"
      by (rule is_digit_char_of) simp
    then show ?thesis
      using "1.IH" False by (simp add: dec_large)
  qed
qed

lemma int_text_digits:
  "ds \<noteq> [] \<Longrightarrow> list_all is_digit ds \<Longrightarrow> int_text ds = Some (int (digits_value ds))"
proof -
  assume some: "ds \<noteq> []" and digits: "list_all is_digit ds"
  obtain c cs where shape: "ds = c # cs"
    using some by (cases ds) auto
  then have "is_digit c"
    using digits by simp
  then have "c \<noteq> CHR ''-''" "c \<noteq> CHR ''+''"
    by (auto simp add: is_digit_def)
  then have "signed (c # cs) = (False, c # cs)"
    by (simp add: signed_def)
  then have "signed ds = (False, ds)"
    by (simp only: shape)
  then show ?thesis
    using some digits by (simp add: int_text_def)
qed

lemma int_text_dec: "int_text (dec n) = Some (int n)"
  using int_text_digits [of "dec n"] digits_dec [of n] by (simp add: digits_value_dec)

lemma digits_value_zeros:
  "digits_value (replicate k (CHR ''0'') @ ds) = digits_value ds"
proof -
  have "foldl (\<lambda>n c. 10 * n + (of_char c - 48)) (0 :: nat) (replicate k (CHR ''0'')) = 0"
    by (induction k) simp_all
  then show ?thesis
    by (simp add: digits_value_def)
qed

lemma int_text_zeros_dec:
  "int_text (replicate k (CHR ''0'') @ dec n) = Some (int n)"
proof -
  have "is_digit (CHR ''0'')"
    by (simp add: is_digit_def)
  then have "list_all is_digit (replicate k (CHR ''0'') @ dec n)"
    using digits_dec [of n] by (auto simp add: list_all_iff)
  moreover have "replicate k (CHR ''0'') @ dec n \<noteq> []"
    using digits_dec [of n] by simp
  ultimately show ?thesis
    using int_text_digits [of "replicate k (CHR ''0'') @ dec n"]
    by (simp add: digits_value_zeros digits_value_dec)
qed

lemma isInt_int_text:
  "isInt lo s \<Longrightarrow> \<exists>n. int_text s = Some n \<and> lo \<le> n"
  by (auto simp add: isInt_def split: option.splits)

lemma ban_outcome:
  "ban e now d req = (r, d') \<Longrightarrow> status r = 200 \<Longrightarrow>
   \<exists>user h. authenticateToken e now req = Inr user \<and> c_is_admin user \<and>
     ((\<exists>s. req_body req ''duration_hours'' = Some (Str s) \<and> int_text s = Some h \<and> 1 \<le> h) \<or>
      (\<exists>t. req_body req ''duration_hours'' = Some (NonStr t (Some h)) \<and> isInt 1 t)) \<and>
     d' = d\<lparr>users := map (\<lambda>u. if u_id u = params_id req
                                then u\<lparr>u_is_banned := True,
                                       u_banned_until := Some (now + h * 3600000)\<rparr>
                                else u) (users d),
              admin_actions :=
                (if refuses_admin_action e
                      \<lparr>a_admin_id = c_id user, a_target_user_id = params_id req,
                       a_action_type = ''ban'', a_reason = req_body req ''reason'',
                       a_duration_hours = req_body req ''duration_hours''\<rparr>
                 then admin_actions d
                 else admin_actions d @
                   [\<lparr>a_admin_id = c_id user, a_target_user_id = params_id req,
                     a_action_type = ''ban'', a_reason = req_body req ''reason'',
                     a_duration_hours = req_body req ''duration_hours''\<rparr>])\<rparr>"
proof -
  assume run: "ban e now d req = (r, d')" and ok: "status r = 200"
  obtain user where auth: "authenticateToken e now req = Inr user"
    using run ok
    by (cases "authenticateToken e now req")
      (auto simp add: ban_def authenticateToken_def error_response_def split: option.splits)
  have admin: "c_is_admin user"
    using run ok auth by (auto simp add: ban_def requireAdmin_def error_response_def split: if_splits)
  then have gate: "requireAdmin user = None"
    by (simp add: requireAdmin_def)
  have valid: "handleValidationErrors [(''reason'', notEmpty), (''duration_hours'', isInt 1)] req = None"
    using run ok auth gate
    by (cases "handleValidationErrors [(''reason'', notEmpty), (''duration_hours'', isInt 1)] req")
      (auto simp add: ban_def dest: handleValidationErrors_status)
  then have checked: "isInt 1 (fld req ''duration_hours'')"
    by (simp add: handleValidationErrors_None)
  define hours where "hours =
    (case req_body req ''duration_hours'' of
       None \<Rightarrow> None
     | Some (Str s) \<Rightarrow> int_text s
     | Some (NonStr t n) \<Rightarrow> n)"
  obtain h where h: "hours = Some h"
    using run ok auth gate valid unfolding hours_def
    by (cases "case req_body req ''duration_hours'' of
                 None \<Rightarrow> None
               | Some (Str s) \<Rightarrow> int_text s
               | Some (NonStr t n) \<Rightarrow> n")
      (auto simp add: ban_def toISOString_def error_response_def Let_def)
  have reading: "(\<exists>s. req_body req ''duration_hours'' = Some (Str s) \<and> int_text s = Some h \<and> 1 \<le> h) \<or>
      (\<exists>t. req_body req ''duration_hours'' = Some (NonStr t (Some h)) \<and> isInt 1 t)"
    using h checked isInt_int_text [of 1 "fld req ''duration_hours''"]
    unfolding hours_def by (auto simp add: fld_def split: option.splits jv.splits)
  have "d' = d\<lparr>users := map (\<lambda>u. if u_id u = params_id req
                                then u\<lparr>u_is_banned := True,
                                       u_banned_until := Some (now + h * 3600000)\<rparr>
                                else u) (users d),
              admin_actions :=
                (if refuses_admin_action e
                      \<lparr>a_admin_id = c_id user, a_target_user_id = params_id req,
                       a_action_type = ''ban'', a_reason = req_body req ''reason'',
                       a_duration_hours = req_body req ''duration_hours''\<rparr>
                 then admin_actions d
                 else admin_actions d @
                   [\<lparr>a_admin_id = c_id user, a_target_user_id = params_id req,
                     a_action_type = ''ban'', a_reason = req_body req ''reason'',
                     a_duration_hours = req_body req ''duration_hours''\<rparr>])\<rparr>"
    using run ok auth gate valid h unfolding hours_def
    by (auto simp add: ban_def toISOString_def update_users_def insert_admin_action_def
        error_response_def Let_def split: if_splits)
  with auth admin reading show ?thesis by blast
qed

lemma unban_outcome:
  "unban e now d req = (r, d') \<Longrightarrow> status r = 200 \<Longrightarrow>
   \<exists>user. authenticateToken e now req = Inr user \<and> c_is_admin user \<and>
     d' = d\<lparr>users := map (\<lambda>u. if u_id u = params_id req
                                then u\<lparr>u_is_banned := False, u_banned_until := None\<rparr>
                                else u) (users d),
              admin_actions :=
                (if refuses_admin_action e
                      \<lparr>a_admin_id = c_id user, a_target_user_id = params_id req,
                       a_action_type = ''unban'', a_reason = Some (Str ''Manual unban by admin''),
                       a_duration_hours = None\<rparr>
                 then admin_actions d
                 else admin_actions d @
                   [\<lparr>a_admin_id = c_id user, a_target_user_id = params_id req,
                     a_action_type = ''unban'', a_reason = Some (Str ''Manual unban by admin''),
                     a_duration_hours = None\<rparr>])\<rparr>"
proof -
  assume run: "unban e now d req = (r, d')" and ok: "status r = 200"
  obtain user where auth: "authenticateToken e now req = Inr user"
    using run ok
    by (cases "authenticateToken e now req")
      (auto simp add: unban_def authenticateToken_def error_response_def split: option.splits)
  have admin: "c_is_admin user"
    using run ok auth by (auto simp add: unban_def requireAdmin_def error_response_def split: if_splits)
  then have gate: "requireAdmin user = None"
    by (simp add: requireAdmin_def)
  have "d' = d\<lparr>users := map (\<lambda>u. if u_id u = params_id req
                                then u\<lparr>u_is_banned := False, u_banned_until := None\<rparr>
                                else u) (users d),
              admin_actions :=
                (if refuses_admin_action e
                      \<lparr>a_admin_id = c_id user, a_target_user_id = params_id req,
                       a_action_type = ''unban'', a_reason = Some (Str ''Manual unban by admin''),
                       a_duration_hours = None\<rparr>
                 then admin_actions d
                 else admin_actions d @
                   [\<lparr>a_admin_id = c_id user, a_target_user_id = params_id req,
                     a_action_type = ''unban'', a_reason = Some (Str ''Manual unban by admin''),
                     a_duration_hours = None\<rparr>])\<rparr>"
    using run auth gate
    by (auto simp add: unban_def update_users_def insert_admin_action_def Let_def)
  with auth admin show ?thesis by blast
qed

text \<open>
  C6 as stated fails where the store refuses the audit row: the handler awaits the insert
  and drops its result, so the ban (and the unban) is answered with 200 and the users row
  is rewritten, and no audit row exists.
\<close>

theorem ban_audit_counterexample:
  "status (fst (ban env2 now0 db0 ban_request)) = 200 \<and>
   users (snd (ban env2 now0 db0 ban_request)) =
     [root_row, alice_row\<lparr>u_is_banned := True, u_banned_until := Some 1700086400000\<rparr>] \<and>
   admin_actions (snd (ban env2 now0 db0 ban_request)) = [] \<and>
   status (fst (unban env2 now0 db0 unban_request)) = 200 \<and>
   admin_actions (snd (unban env2 now0 db0 unban_request)) = []"
  by code_simp

text \<open>
  C6, amended. A ban request that is answered with 200 came from an administrator and
  carried a duration that reads as an integer \<open>h\<close>: a text of an optional sign and digits
  that stands for \<open>h \<ge> 1\<close>, or a value that is not a string whose text passes the
  validator and whose number is \<open>h\<close>. It sets \<open>is_banned\<close> to true and \<open>banned_until\<close> to
  the handler's clock reading plus \<open>h\<close> hours (3600000 ms each) on every users row with the
  target id and leaves the other rows as they were. In particular, when the duration was
  sent as the decimal numeral of \<open>n\<close>, with or without zeros before it, the expiry is the
  clock reading plus \<open>n\<close> hours. The handler then sends one \<open>ban\<close> audit row with the
  administrator, the target, and the reason and the duration as they were sent; the row
  is appended to the audit table unless the store refuses it, and the answer is 200 in
  both cases. An unban request that is answered with 200 sets \<open>is_banned\<close> to false and
  \<open>banned_until\<close> to null on the target and sends one \<open>unban\<close> audit row whose reason is
  \<open>Manual unban by admin\<close>, appended unless the store refuses it.
\<close>

theorem ban_unban_effects:
  "(status (fst (ban e now d req)) = 200 \<longrightarrow>
      (\<exists>user h. authenticateToken e now req = Inr user \<and> c_is_admin user \<and>
         ((\<exists>s. req_body req ''duration_hours'' = Some (Str s) \<and> int_text s = Some h \<and> 1 \<le> h) \<or>
          (\<exists>t. req_body req ''duration_hours'' = Some (NonStr t (Some h)) \<and> isInt 1 t)) \<and>
         users (snd (ban e now d req)) =
           map (\<lambda>u. if u_id u = params_id req
                     then u\<lparr>u_is_banned := True, u_banned_until := Some (now + h * 3600000)\<rparr>
                     else u) (users d) \<and>
         (\<forall>u \<in> set (users (snd (ban e now d req))).
            u_id u = params_id req \<longrightarrow>
              u_is_banned u = True \<and> u_banned_until u = Some (now + h * 3600000)) \<and>
         admin_actions (snd (ban e now d req)) =
           (if refuses_admin_action e
                 \<lparr>a_admin_id = c_id user, a_target_user_id = params_id req,
                  a_action_type = ''ban'', a_reason = req_body req ''reason'',
                  a_duration_hours = req_body req ''duration_hours''\<rparr>
            then admin_actions d
            else admin_actions d @
              [\<lparr>a_admin_id = c_id user, a_target_user_id = params_id req,
                a_action_type = ''ban'', a_reason = req_body req ''reason'',
                a_duration_hours = req_body req ''duration_hours''\<rparr>]))) \<and>
   (\<forall>k n. req_body req ''duration_hours'' = Some (Str (replicate k (CHR ''0'') @ dec n)) \<longrightarrow>
      status (fst (ban e now d req)) = 200 \<longrightarrow>
        1 \<le> n \<and>
        (\<forall>u \<in> set (users (snd (ban e now d req))).
           u_id u = params_id req \<longrightarrow>
             u_is_banned u = True \<and> u_banned_until u = Some (now + int n * 3600000))) \<and>
   (status (fst (unban e now d req)) = 200 \<longrightarrow>
      (\<exists>user. authenticateToken e now req = Inr user \<and> c_is_admin user \<and>
         users (snd (unban e now d req)) =
           map (\<lambda>u. if u_id u = params_id req
                     then u\<lparr>u_is_banned := False, u_banned_until := None\<rparr>
                     else u) (users d) \<and>
         (\<forall>u \<in> set (users (snd (unban e now d req))).
            u_id u = params_id req \<longrightarrow> u_is_banned u = False \<and> u_banned_until u = None) \<and>
         admin_actions (snd (unban e now d req)) =
           (if refuses_admin_action e
                 \<lparr>a_admin_id = c_id user, a_target_user_id = params_id req,
                  a_action_type = ''unban'', a_reason = Some (Str ''Manual unban by admin''),
                  a_duration_hours = None\<rparr>
            then admin_actions d
            else admin_actions d @
              [\<lparr>a_admin_id = c_id user, a_target_user_id = params_id req,
                a_action_type = ''unban'', a_reason = Some (Str ''Manual unban by admin''),
                a_duration_hours = None\<rparr>])))"
proof (intro conjI impI allI)
  assume ok: "status (fst (ban e now d req)) = 200"
  from ban_outcome [of e now d req "fst (ban e now d req)" "snd (ban e now d req)"] ok
  obtain user h where f: "authenticateToken e now req = Inr user" "c_is_admin user"
    "(\<exists>s. req_body req ''duration_hours'' = Some (Str s) \<and> int_text s = Some h \<and> 1 \<le> h) \<or>
     (\<exists>t. req_body req ''duration_hours'' = Some (NonStr t (Some h)) \<and> isInt 1 t)"
    and d': "snd (ban e now d req) =
       d\<lparr>users := map (\<lambda>u. if u_id u = params_id req
                                then u\<lparr>u_is_banned := True,
                                       u_banned_until := Some (now + h * 3600000)\<rparr>
                                else u) (users d),
              admin_actions :=
                (if refuses_admin_action e
                      \<lparr>a_admin_id = c_id user, a_target_user_id = params_id req,
                       a_action_type = ''ban'', a_reason = req_body req ''reason'',
                       a_duration_hours = req_body req ''duration_hours''\<rparr>
                 then admin_actions d
                 else admin_actions d @
                   [\<lparr>a_admin_id = c_id user, a_target_user_id = params_id req,
                     a_action_type = ''ban'', a_reason = req_body req ''reason'',
                     a_duration_hours = req_body req ''duration_hours''\<rparr>])\<rparr>"
    by auto
  show "\<exists>user h. authenticateToken e now req = Inr user \<and> c_is_admin user \<and>
         ((\<exists>s. req_body req ''duration_hours'' = Some (Str s) \<and> int_text s = Some h \<and> 1 \<le> h) \<or>
          (\<exists>t. req_body req ''duration_hours'' = Some (NonStr t (Some h)) \<and> isInt 1 t)) \<and>
         users (snd (ban e now d req)) =
           map (\<lambda>u. if u_id u = params_id req
                     then u\<lparr>u_is_banned := True, u_banned_until := Some (now + h * 3600000)\<rparr>
                     else u) (users d) \<and>
         (\<forall>u \<in> set (users (snd (ban e now d req))).
            u_id u = params_id req \<longrightarrow>
              u_is_banned u = True \<and> u_banned_until u = Some (now + h * 3600000)) \<and>
         admin_actions (snd (ban e now d req)) =
           (if refuses_admin_action e
                 \<lparr>a_admin_id = c_id user, a_target_user_id = params_id req,
                  a_action_type = ''ban'', a_reason = req_body req ''reason'',
                  a_duration_hours = req_body req ''duration_hours''\<rparr>
            then admin_actions d
            else admin_actions d @
              [\<lparr>a_admin_id = c_id user, a_target_user_id = params_id req,
                a_action_type = ''ban'', a_reason = req_body req ''reason'',
                a_duration_hours = req_body req ''duration_hours''\<rparr>])"
    apply (rule exI [of _ user], rule exI [of _ h])
    using f by (auto simp add: d')
next
  fix k n
  assume sent: "req_body req ''duration_hours'' = Some (Str (replicate k (CHR ''0'') @ dec n))"
    and ok: "status (fst (ban e now d req)) = 200"
  from ban_outcome [of e now d req "fst (ban e now d req)" "snd (ban e now d req)"] ok
  obtain h where
    rd: "(\<exists>s. req_body req ''duration_hours'' = Some (Str s) \<and> int_text s = Some h \<and> 1 \<le> h) \<or>
     (\<exists>t. req_body req ''duration_hours'' = Some (NonStr t (Some h)) \<and> isInt 1 t)"
    and us: "users (snd (ban e now d req)) =
       map (\<lambda>u. if u_id u = params_id req
                 then u\<lparr>u_is_banned := True, u_banned_until := Some (now + h * 3600000)\<rparr>
                 else u) (users d)"
    by auto
  from rd sent have h: "h = int n" "1 \<le> h"
    by (auto simp add: int_text_zeros_dec)
  then show "1 \<le> n"
    by simp
  show "\<forall>u \<in> set (users (snd (ban e now d req))).
           u_id u = params_id req \<longrightarrow>
             u_is_banned u = True \<and> u_banned_until u = Some (now + int n * 3600000)"
    using h by (auto simp add: us)
next
  assume ok: "status (fst (unban e now d req)) = 200"
  from unban_outcome [of e now d req "fst (unban e now d req)" "snd (unban e now d req)"] ok
  obtain user where f: "authenticateToken e now req = Inr user" "c_is_admin user"
    and d': "snd (unban e now d req) =
       d\<lparr>users := map (\<lambda>u. if u_id u = params_id req
                                then u\<lparr>u_is_banned := False, u_banned_until := None\<rparr>
                                else u) (users d),
              admin_actions :=
                (if refuses_admin_action e
                      \<lparr>a_admin_id = c_id user, a_target_user_id = params_id req,
                       a_action_type = ''unban'', a_reason = Some (Str ''Manual unban by admin''),
                       a_duration_hours = None\<rparr>
                 then admin_actions d
                 else admin_actions d @
                   [\<lparr>a_admin_id = c_id user, a_target_user_id = params_id req,
                     a_action_type = ''unban'', a_reason = Some (Str ''Manual unban by admin''),
                     a_duration_hours = None\<rparr>])\<rparr>"
    by auto
  show "\<exists>user. authenticateToken e now req = Inr user \<and> c_is_admin user \<and>
         users (snd (unban e now d req)) =
           map (\<lambda>u. if u_id u = params_id req
                     then u\<lparr>u_is_banned := False, u_banned_until := None\<rparr>
                     else u) (users d) \<and>
         (\<forall>u \<in> set (users (snd (unban e now d req))).
            u_id u = params_id req \<longrightarrow> u_is_banned u = False \<and> u_banned_until u = None) \<and>
         admin_actions (snd (unban e now d req)) =
           (if refuses_admin_action e
                 \<lparr>a_admin_id = c_id user, a_target_user_id = params_id req,
                  a_action_type = ''unban'', a_reason = Some (Str ''Manual unban by admin''),
                  a_duration_hours = None\<rparr>
            then admin_actions d
            else admin_actions d @
              [\<lparr>a_admin_id = c_id user, a_target_user_id = params_id req,
                a_action_type = ''unban'', a_reason = Some (Str ''Manual unban by admin''),
                a_duration_hours = None\<rparr>])"
    apply (rule exI [of _ user])
    using f by (auto simp add: d')
qed

text \<open>
  The theorem at the administrator's ban of alice for \<open>007\<close> hours, at the same ban for
  \<open>24\<close> hours, and at the unban that follows the first.
\<close>

theorem ban_unban_effects_witness:
  "status (fst (ban env0 now0 db0 ban_request_007)) = 200 \<and>
   users (snd (ban env0 now0 db0 ban_request_007)) =
     [root_row, alice_row\<lparr>u_is_banned := True, u_banned_until := Some 1700025200000\<rparr>] \<and>
   admin_actions (snd (ban env0 now0 db0 ban_request_007)) =
     [\<lparr>a_admin_id = 1, a_target_user_id = 2, a_action_type = ''ban'',
       a_reason = Some (Str ''spam''), a_duration_hours = Some (Str ''007'')\<rparr>] \<and>
   status (fst (ban env0 now0 db0 ban_request)) = 200 \<and>
   list_all (\<lambda>u. u_id u = 2 \<longrightarrow> u_is_banned u = True \<and> u_banned_until u = Some 1700086400000)
     (users (snd (ban env0 now0 db0 ban_request))) \<and>
   status (fst (unban env0 now0 (snd (ban env0 now0 db0 ban_request_007)) unban_request)) = 200 \<and>
   users (snd (unban env0 now0 (snd (ban env0 now0 db0 ban_request_007)) unban_request)) =
     [root_row, alice_row] \<and>
   admin_actions (snd (unban env0 now0 (snd (ban env0 now0 db0 ban_request_007)) unban_request)) =
     [\<lparr>a_admin_id = 1, a_target_user_id = 2, a_action_type = ''ban'',
       a_reason = Some (Str ''spam''), a_duration_hours = Some (Str ''007'')\<rparr>,
      \<lparr>a_admin_id = 1, a_target_user_id = 2, a_action_type = ''unban'',
       a_reason = Some (Str ''Manual unban by admin''), a_duration_hours = None\<rparr>]"
proof -
  let ?d1 = "snd (ban env0 now0 db0 ban_request_007)"
  let ?d2 = "snd (unban env0 now0 ?d1 unban_request)"
  have s1: "status (fst (ban env0 now0 db0 ban_request_007)) = 200"
    by code_simp
  have s2: "status (fst (unban env0 now0 ?d1 unban_request)) = 200"
    by code_simp
  have s3: "status (fst (ban env0 now0 db0 ban_request)) = 200"
    by code_simp
  have a1: "authenticateToken env0 now0 ban_request_007 = Inr root_claims"
    by code_simp
  have a2: "authenticateToken env0 now0 unban_request = Inr root_claims"
    by code_simp
  have sent: "req_body ban_request_007 ''duration_hours'' = Some (Str ''007'')"
    "req_body ban_request_007 ''reason'' = Some (Str ''spam'')"
    by code_simp+
  have sent24: "req_body ban_request ''duration_hours'' = Some (Str (replicate 0 (CHR ''0'') @ dec 24))"
    by code_simp
  have h7: "int_text ''007'' = Some 7"
    by code_simp
  have k: "c_id root_claims = 1" "params_id ban_request_007 = 2" "params_id unban_request = 2"
    "params_id ban_request = 2"
    "now0 + 7 * 3600000 = 1700025200000" "now0 + int 24 * 3600000 = 1700086400000"
    by code_simp+
  have free: "\<not> refuses_admin_action env0 a" for a
    by (simp add: env0_def)
  have u0: "users db0 = [root_row, alice_row]" "admin_actions db0 = []"
    "u_id root_row = 1" "u_id alice_row = 2"
    by (simp_all add: db0_def root_row_def alice_row_def)
  have undo: "alice_row\<lparr>u_is_banned := False, u_banned_until := None\<rparr> = alice_row"
    by (simp add: alice_row_def)
  from ban_unban_effects [of env0 now0 db0 ban_request_007, THEN conjunct1, THEN mp, OF s1]
  obtain user h where f: "authenticateToken env0 now0 ban_request_007 = Inr user"
    and rd: "(\<exists>s. req_body ban_request_007 ''duration_hours'' = Some (Str s) \<and> int_text s = Some h \<and> 1 \<le> h) \<or>
          (\<exists>t. req_body ban_request_007 ''duration_hours'' = Some (NonStr t (Some h)) \<and> isInt 1 t)"
    and us: "users ?d1 =
           map (\<lambda>u. if u_id u = params_id ban_request_007
                     then u\<lparr>u_is_banned := True, u_banned_until := Some (now0 + h * 3600000)\<rparr>
                     else u) (users db0)"
    and aa: "admin_actions ?d1 =
           (if refuses_admin_action env0
                 \<lparr>a_admin_id = c_id user, a_target_user_id = params_id ban_request_007,
                  a_action_type = ''ban'', a_reason = req_body ban_request_007 ''reason'',
                  a_duration_hours = req_body ban_request_007 ''duration_hours''\<rparr>
            then admin_actions db0
            else admin_actions db0 @
              [\<lparr>a_admin_id = c_id user, a_target_user_id = params_id ban_request_007,
                a_action_type = ''ban'', a_reason = req_body ban_request_007 ''reason'',
                a_duration_hours = req_body ban_request_007 ''duration_hours''\<rparr>])"
    by blast
  from f a1 have uh: "user = root_claims"
    by simp
  from rd sent h7 have hh: "h = 7"
    by auto
  have b1: "users ?d1 = [root_row, alice_row\<lparr>u_is_banned := True, u_banned_until := Some 1700025200000\<rparr>]"
    by (simp only: us uh hh k u0 list.map) simp
  have b2: "admin_actions ?d1 =
       [\<lparr>a_admin_id = 1, a_target_user_id = 2, a_action_type = ''ban'',
         a_reason = Some (Str ''spam''), a_duration_hours = Some (Str ''007'')\<rparr>]"
    by (simp only: aa uh k u0 sent free if_False append_Nil)
  from ban_unban_effects [of env0 now0 db0 ban_request, THEN conjunct2, THEN conjunct1,
      THEN spec, THEN spec, THEN mp, OF sent24, THEN mp, OF s3]
  have b3: "list_all (\<lambda>u. u_id u = 2 \<longrightarrow> u_is_banned u = True \<and> u_banned_until u = Some 1700086400000)
     (users (snd (ban env0 now0 db0 ban_request)))"
    by (simp only: k list_all_iff) simp
  from ban_unban_effects [of env0 now0 ?d1 unban_request, THEN conjunct2, THEN conjunct2, THEN mp, OF s2]
  obtain user' where f': "authenticateToken env0 now0 unban_request = Inr user'"
    and us': "users ?d2 =
           map (\<lambda>u. if u_id u = params_id unban_request
                     then u\<lparr>u_is_banned := False, u_banned_until := None\<rparr>
                     else u) (users ?d1)"
    and aa': "admin_actions ?d2 =
           (if refuses_admin_action env0
                 \<lparr>a_admin_id = c_id user', a_target_user_id = params_id unban_request,
                  a_action_type = ''unban'', a_reason = Some (Str ''Manual unban by admin''),
                  a_duration_hours = None\<rparr>
            then admin_actions ?d1
            else admin_actions ?d1 @
              [\<lparr>a_admin_id = c_id user', a_target_user_id = params_id unban_request,
                a_action_type = ''unban'', a_reason = Some (Str ''Manual unban by admin''),
                a_duration_hours = None\<rparr>])"
    by blast
  from f' a2 have uh': "user' = root_claims"
    by simp
  have c1: "users ?d2 = [root_row, alice_row]"
    by (simp only: us' b1 k list.map) (simp add: u0 undo)
  have c2: "admin_actions ?d2 =
       [\<lparr>a_admin_id = 1, a_target_user_id = 2, a_action_type = ''ban'',
         a_reason = Some (Str ''spam''), a_duration_hours = Some (Str ''007'')\<rparr>,
        \<lparr>a_admin_id = 1, a_target_user_id = 2, a_action_type = ''unban'',
         a_reason = Some (Str ''Manual unban by admin''), a_duration_hours = None\<rparr>]"
    by (simp only: aa' b2 uh' k free if_False) simp
  show ?thesis
    using s1 s2 s3 b1 b2 b3 c1 c2 by simp
qed

subsection \<open>C7: resolving a report\<close>

lemma resolve_report_store:
  "snd (resolve_report e now d req) = d \<or>
   (\<exists>user. authenticateToken e now req = Inr user \<and>
      snd (resolve_report e now d req) =
        d\<lparr>reports := map (\<lambda>r. if r_id r = params_id req
                                  then r\<lparr>r_status := ''resolved'',
                                         r_resolved_by := Some (c_id user),
                                         r_resolved_at := Some now,
                                         r_resolution_notes :=
                                           (case req_body req ''notes'' of
                                              None \<Rightarrow> r_resolution_notes r
                                            | Some n \<Rightarrow> Some n)\<rparr>
                                  else r) (reports d)\<rparr>)"
  by (auto simp add: resolve_report_def update_reports_def Let_def
      split: sum.splits option.splits)

lemma resolve_report_accepted:
  assumes auth: "authenticateToken e now req = Inr user"
    and role: "c_is_admin user \<or> c_is_moderator user"
    and action: "fld req ''action'' \<in> set [''dismiss'', ''warn'', ''ban'', ''delete'']"
  shows "resolve_report e now d req =
     (message_response ''Report resolved successfully'',
      d\<lparr>reports := map (\<lambda>r. if r_id r = params_id req
                                  then r\<lparr>r_status := ''resolved'',
                                         r_resolved_by := Some (c_id user),
                                         r_resolved_at := Some now,
                                         r_resolution_notes :=
                                           (case req_body req ''notes'' of
                                              None \<Rightarrow> r_resolution_notes r
                                            | Some n \<Rightarrow> Some n)\<rparr>
                                  else r) (reports d)\<rparr>)"
proof -
  have gate: "requireModerator user = None"
    using role by (auto simp add: requireModerator_def)
  have valid: "handleValidationErrors
                 [(''action'', isIn [''dismiss'', ''warn'', ''ban'', ''delete''])] req = None"
    using action by (simp add: handleValidationErrors_None isIn_def)
  show ?thesis
    by (simp add: resolve_report_def auth gate valid update_reports_def Let_def)
qed

text \<open>
  C7. Whatever the request (any action, accepted or not): the users, the posts and the
  audit rows after a resolve-report request are those before it, the reports table keeps
  its length, and every report row whose id is not the targeted one is unchanged. For a
  moderator's or administrator's request with one of the four actions the answer is the
  acknowledgement, and the targeted row gets status \<open>resolved\<close>, the resolver, the time and
  the notes that were sent (its notes stay when none were sent), the same for all four
  actions: \<open>ban\<close> bans no user and \<open>delete\<close> deletes no post.
\<close>

theorem resolve_report_frame:
  "users (snd (resolve_report e now d req)) = users d \<and>
   posts (snd (resolve_report e now d req)) = posts d \<and>
   admin_actions (snd (resolve_report e now d req)) = admin_actions d \<and>
   length (reports (snd (resolve_report e now d req))) = length (reports d) \<and>
   (\<forall>i < length (reports d).
      r_id (reports d ! i) \<noteq> params_id req \<longrightarrow>
        reports (snd (resolve_report e now d req)) ! i = reports d ! i) \<and>
   (authenticateToken e now req = Inr user \<and> (c_is_admin user \<or> c_is_moderator user) \<and>
    fld req ''action'' \<in> set [''dismiss'', ''warn'', ''ban'', ''delete''] \<longrightarrow>
      fst (resolve_report e now d req) = message_response ''Report resolved successfully'' \<and>
      reports (snd (resolve_report e now d req)) =
        map (\<lambda>r. if r_id r = params_id req
                  then r\<lparr>r_status := ''resolved'',
                         r_resolved_by := Some (c_id user),
                         r_resolved_at := Some now,
                         r_resolution_notes :=
                           (case req_body req ''notes'' of
                              None \<Rightarrow> r_resolution_notes r
                            | Some n \<Rightarrow> Some n)\<rparr>
                  else r) (reports d))"
proof -
  have frame: "users (snd (resolve_report e now d req)) = users d \<and>
     posts (snd (resolve_report e now d req)) = posts d \<and>
     admin_actions (snd (resolve_report e now d req)) = admin_actions d \<and>
     length (reports (snd (resolve_report e now d req))) = length (reports d) \<and>
     (\<forall>i < length (reports d).
        r_id (reports d ! i) \<noteq> params_id req \<longrightarrow>
          reports (snd (resolve_report e now d req)) ! i = reports d ! i)"
    using resolve_report_store [of e now d req] by auto
  have accepted: "authenticateToken e now req = Inr user \<and> (c_is_admin user \<or> c_is_moderator user) \<and>
    fld req ''action'' \<in> set [''dismiss'', ''warn'', ''ban'', ''delete''] \<longrightarrow>
      fst (resolve_report e now d req) = message_response ''Report resolved successfully'' \<and>
      reports (snd (resolve_report e now d req)) =
        map (\<lambda>r. if r_id r = params_id req
                  then r\<lparr>r_status := ''resolved'',
                         r_resolved_by := Some (c_id user),
                         r_resolved_at := Some now,
                         r_resolution_notes :=
                           (case req_body req ''notes'' of
                              None \<Rightarrow> r_resolution_notes r
                            | Some n \<Rightarrow> Some n)\<rparr>
                  else r) (reports d)"
  proof (intro impI)
    assume h: "authenticateToken e now req = Inr user \<and> (c_is_admin user \<or> c_is_moderator user) \<and>
      fld req ''action'' \<in> set [''dismiss'', ''warn'', ''ban'', ''delete'']"
    then show "fst (resolve_report e now d req) = message_response ''Report resolved successfully'' \<and>
      reports (snd (resolve_report e now d req)) =
        map (\<lambda>r. if r_id r = params_id req
                  then r\<lparr>r_status := ''resolved'',
                         r_resolved_by := Some (c_id user),
                         r_resolved_at := Some now,
                         r_resolution_notes :=
                           (case req_body req ''notes'' of
                              None \<Rightarrow> r_resolution_notes r
                            | Some n \<Rightarrow> Some n)\<rparr>
                  else r) (reports d)"
      using resolve_report_accepted [of e now req user d] by simp
  qed
  from frame accepted show ?thesis by blast
qed

text \<open>
  The theorem at the administrator's resolution of report 4 with the actions \<open>ban\<close> and
  \<open>delete\<close>, on a store with a second report: both users and the post are as before,
  report 5 is untouched.
\<close>

theorem resolve_report_frame_witness:
  "authenticateToken env0 now0 (resolve_request ''ban'') = Inr root_claims \<and>
   c_is_admin root_claims \<and>
   fld (resolve_request ''ban'') ''action'' \<in> set [''dismiss'', ''warn'', ''ban'', ''delete''] \<and>
   fst (resolve_report env0 now0 db2 (resolve_request ''ban'')) =
     message_response ''Report resolved successfully'' \<and>
   users (snd (resolve_report env0 now0 db2 (resolve_request ''ban''))) = [root_row, alice_row] \<and>
   posts (snd (resolve_report env0 now0 db2 (resolve_request ''ban''))) = [post3] \<and>
   reports (snd (resolve_report env0 now0 db2 (resolve_request ''ban''))) =
     [report4\<lparr>r_status := ''resolved'', r_resolved_by := Some 1, r_resolved_at := Some now0,
              r_resolution_notes := Some (Str ''checked'')\<rparr>,
      report5] \<and>
   1 < length (reports db2) \<and>
   r_id (reports db2 ! 1) \<noteq> params_id (resolve_request ''ban'') \<and>
   reports (snd (resolve_report env0 now0 db2 (resolve_request ''ban''))) ! 1 = reports db2 ! 1 \<and>
   authenticateToken env0 now0 (resolve_request ''delete'') = Inr root_claims \<and>
   fld (resolve_request ''delete'') ''action'' \<in> set [''dismiss'', ''warn'', ''ban'', ''delete''] \<and>
   fst (resolve_report env0 now0 db2 (resolve_request ''delete'')) =
     message_response ''Report resolved successfully'' \<and>
   users (snd (resolve_report env0 now0 db2 (resolve_request ''delete''))) = [root_row, alice_row] \<and>
   posts (snd (resolve_report env0 now0 db2 (resolve_request ''delete''))) = [post3]"
proof -
  have a: "authenticateToken env0 now0 (resolve_request ''ban'') = Inr root_claims"
    "authenticateToken env0 now0 (resolve_request ''delete'') = Inr root_claims"
    by code_simp+
  have r: "c_is_admin root_claims" "c_id root_claims = 1"
    by code_simp+
  have f: "fld (resolve_request ''ban'') ''action'' = ''ban''"
    "fld (resolve_request ''delete'') ''action'' = ''delete''"
    "req_body (resolve_request ''ban'') ''notes'' = Some (Str ''checked'')"
    "params_id (resolve_request ''ban'') = 4"
    by code_simp+
  have t: "users db2 = [root_row, alice_row]" "posts db2 = [post3]"
    "reports db2 = [report4, report5]" "r_id report4 = 4" "r_id report5 = 5"
    by (simp_all add: db2_def db0_def report4_def report5_def)
  show ?thesis
    using resolve_report_frame [of env0 now0 db2 "resolve_request ''ban''" root_claims]
      resolve_report_frame [of env0 now0 db2 "resolve_request ''delete''" root_claims]
      a r f t
    by simp
qed

subsection \<open>C8: analytics and the period parameter\<close>

text \<open>
  C8. Two analytics requests on the same store that differ only in the \<open>period\<close> query
  parameter (set, changed or removed), whatever random figures are drawn for them, give
  the same \<open>user_growth\<close>, \<open>total_posts\<close> and \<open>revenue\<close> fields. For an administrator these
  are the number of all users rows, the number of all posts rows and the constant
  revenue block.
\<close>

theorem analytics_ignores_period:
  "field ''user_growth'' (body (fst (analytics e now rnd d (req\<lparr>query := (query req)(''period'' := p)\<rparr>)))) =
     field ''user_growth'' (body (fst (analytics e now rnd' d req))) \<and>
   field ''total_posts'' (body (fst (analytics e now rnd d (req\<lparr>query := (query req)(''period'' := p)\<rparr>)))) =
     field ''total_posts'' (body (fst (analytics e now rnd' d req))) \<and>
   field ''revenue'' (body (fst (analytics e now rnd d (req\<lparr>query := (query req)(''period'' := p)\<rparr>)))) =
     field ''revenue'' (body (fst (analytics e now rnd' d req))) \<and>
   (authenticateToken e now req = Inr user \<and> c_is_admin user \<longrightarrow>
      status (fst (analytics e now rnd' d req)) = 200 \<and>
      field ''user_growth'' (body (fst (analytics e now rnd' d req))) =
        Some (JNum (int (length (users d)))) \<and>
      field ''total_posts'' (body (fst (analytics e now rnd' d req))) =
        Some (JNum (int (length (posts d)))) \<and>
      field ''revenue'' (body (fst (analytics e now rnd' d req))) =
        Some (JObj [(''total_revenue'', JNum 0), (''premium_users'', JNum 0),
                    (''conversion_rate'', JNum 0)]))"
  by (auto simp add: analytics_def authenticateToken_query requireAdmin_def error_response_def
      Let_def split: sum.splits option.splits)

text \<open>The theorem at the administrator's request with the period 30d and without a period.\<close>

theorem analytics_ignores_period_witness:
  "authenticateToken env0 now0 (as_root request0) = Inr root_claims \<and>
   c_is_admin root_claims \<and>
   status (fst (analytics env0 now0 93 db0 (as_root request0))) = 200 \<and>
   field ''user_growth'' (body (fst (analytics env0 now0 7 db0
       ((as_root request0)\<lparr>query := (query (as_root request0))(''period'' := Some ''30d'')\<rparr>)))) =
     Some (JNum 2) \<and>
   field ''user_growth'' (body (fst (analytics env0 now0 93 db0 (as_root request0)))) =
     Some (JNum 2) \<and>
   field ''total_posts'' (body (fst (analytics env0 now0 7 db0
       ((as_root request0)\<lparr>query := (query (as_root request0))(''period'' := Some ''30d'')\<rparr>)))) =
     Some (JNum 1) \<and>
   field ''total_posts'' (body (fst (analytics env0 now0 93 db0 (as_root request0)))) =
     Some (JNum 1) \<and>
   field ''revenue'' (body (fst (analytics env0 now0 7 db0
       ((as_root request0)\<lparr>query := (query (as_root request0))(''period'' := Some ''30d'')\<rparr>)))) =
     Some (JObj [(''total_revenue'', JNum 0), (''premium_users'', JNum 0),
                 (''conversion_rate'', JNum 0)])"
proof -
  have a: "authenticateToken env0 now0 (as_root request0) = Inr root_claims"
    by code_simp
  have r: "c_is_admin root_claims"
    by code_simp
  have n: "int (length (users db0)) = 2" "int (length (posts db0)) = 1"
    by (simp_all add: db0_def)
  show ?thesis
    using analytics_ignores_period [of env0 now0 7 db0 "as_root request0" "Some ''30d''" 93 root_claims]
      a r n
    by simp
qed

subsection \<open>C10: the two client-side formatters\<close>

text \<open>
  Where the two formatters agree: on every content without a double or single quote,
  since the three replacements they share put no quote into the text.
\<close>

lemma replace_char_absent: "c \<notin> set s \<Longrightarrow> replace_char c r s = s"
  by (induction s) (auto simp add: replace_char_def)

lemma set_replace_char: "set (replace_char c r s) \<subseteq> set s \<union> set r"
  by (induction s) (auto simp add: replace_char_def)

lemma formatPostContent_agree_without_quotes:
  assumes dq: "CHR 0x22 \<notin> set s" and sq: "CHR 0x27 \<notin> set s"
  shows "FeedManager_formatPostContent s = ProfileManager_formatPostContent s"
proof -
  let ?t = "replace_char (CHR ''>'') ''&gt;''
              (replace_char (CHR ''<'') ''&lt;'' (replace_char (CHR ''&'') ''&amp;'' s))"
  have "set ?t \<subseteq> set s \<union> set ''&amp;'' \<union> set ''&lt;'' \<union> set ''&gt;''"
    using set_replace_char [of "CHR ''>''" "''&gt;''"
            "replace_char (CHR ''<'') ''&lt;'' (replace_char (CHR ''&'') ''&amp;'' s)"]
      set_replace_char [of "CHR ''<''" "''&lt;''" "replace_char (CHR ''&'') ''&amp;'' s"]
      set_replace_char [of "CHR ''&''" "''&amp;''" s]
    by blast
  then have "CHR 0x22 \<notin> set ?t" "CHR 0x27 \<notin> set ?t"
    using dq sq by auto
  then have "escapeHtml s = ?t"
    by (simp add: escapeHtml_def replace_char_absent)
  then show ?thesis
    by (simp add: FeedManager_formatPostContent_def ProfileManager_formatPostContent_def)
qed

text \<open>
  C10 at a content that is one double quote, and at one that is one single quote.
  \<open>FeedManager.formatPostContent\<close> escapes the double quote; \<open>ProfileManager.formatPostContent\<close>
  returns it as it is. For the single quote the feed formatter's own escape \<open>&#039;\<close> is
  then read as a hashtag; the profile formatter again returns the quote unchanged.
\<close>

theorem formatPostContent_quote_divergence:
  \<open>FeedManager_formatPostContent [CHR 0x22] = ''&quot;'' \<and>
   ProfileManager_formatPostContent [CHR 0x22] = [CHR 0x22] \<and>
   FeedManager_formatPostContent [CHR 0x27] = ''&<span class="hashtag">#039</span>;'' \<and>
   ProfileManager_formatPostContent [CHR 0x27] = [CHR 0x27] \<and>
   FeedManager_formatPostContent [CHR 0x22] \<noteq> ProfileManager_formatPostContent [CHR 0x22] \<and>
   FeedManager_formatPostContent [CHR 0x27] \<noteq> ProfileManager_formatPostContent [CHR 0x27]\<close>
  by code_simp

text \<open>In a link the unescaped quote of the profile formatter ends the \<open>href\<close> attribute early.\<close>

lemma ProfileManager_link_with_quote:
  \<open>ProfileManager_formatPostContent [CHR ''h'', CHR ''t'', CHR ''t'', CHR ''p'', CHR '':'', CHR ''/'',
      CHR ''/'', CHR ''a'', CHR 0x22, CHR ''b''] =
     ''<a href="http://a"b" target="_blank" rel="noopener">http://a"b</a>'' \<and>
   FeedManager_formatPostContent [CHR ''h'', CHR ''t'', CHR ''t'', CHR ''p'', CHR '':'', CHR ''/'',
      CHR ''/'', CHR ''a'', CHR 0x22, CHR ''b''] =
     ''<a href="http://a&quot;b" target="_blank" rel="noopener">http://a&quot;b</a>''\<close>
  by code_simp

end
